theory Spec2Isabelle
  imports Complex_Main
begin

unbundle bit_operations_syntax

section \<open>Data model\<close>

text \<open>
  The grid engine of \<^verbatim>\<open>layouts.ts\<close>. A JavaScript \<^verbatim>\<open>number\<close> that holds a
  coordinate or a size is modelled as an exact \<^typ>\<open>real\<close> (rounding of doubles is not
  modelled); counts and grid indices are \<^typ>\<open>nat\<close> or \<^typ>\<open>int\<close>. An optional field
  is an \<open>option\<close>: \<open>None\<close> is \<^verbatim>\<open>undefined\<close>. A \<^verbatim>\<open>Vec2\<close> is a pair \<open>(x, y)\<close>.
  The field \<^verbatim>\<open>value\<close> of a component is \<open>comp_value\<close>.
\<close>

record LayoutComponent =
  position :: "real \<times> real"
  scale :: "(real \<times> real) option"
  visible :: "bool option"
  zIndex :: "int option"
  width :: real
  height :: real
  comp_value :: "real option"
  colSpan :: "nat option"
  rowSpan :: "nat option"

record Bounds =
  minX :: real
  minY :: real
  maxX :: real
  maxY :: real

record LayoutOptions =
  opt_columns :: "int option"
  opt_rows :: "int option"
  opt_autoRows :: "bool option"
  opt_flowDirection :: "string option"
  opt_flowReverse :: "bool option"
  opt_lastRowAlign :: "string option"
  opt_useGridSpanning :: "bool option"
  opt_sizingMode :: "string option"
  opt_fixedWidth :: "real option"
  opt_fixedHeight :: "real option"
  opt_columnGap :: "real option"
  opt_rowGap :: "real option"
  opt_spacing :: "real option"
  opt_alignItems :: "string option"
  opt_justifyItems :: "string option"
  opt_honeycombOrientation :: "string option"
  opt_cornerOffset :: "real option"
  opt_excludeCorners :: "bool option"
  opt_priorityDirection :: "string option"
  opt_overflowAlignment :: "string option"
  opt_equalDistribution :: "bool option"
  opt_startCorner :: "string option"
  opt_direction :: "string option"
  opt_offset :: "real option"
  opt_globalRotation :: "real option"
  opt_perspectiveY :: "real option"
  opt_depthScale :: "real option"
  opt_enableZIndex :: "bool option"

text \<open>The options object \<^verbatim>\<open>{}\<close>: every key undefined.\<close>

definition no_options :: LayoutOptions where
  "no_options = \<lparr>opt_columns = None, opt_rows = None, opt_autoRows = None,
     opt_flowDirection = None, opt_flowReverse = None, opt_lastRowAlign = None,
     opt_useGridSpanning = None, opt_sizingMode = None, opt_fixedWidth = None,
     opt_fixedHeight = None, opt_columnGap = None, opt_rowGap = None, opt_spacing = None,
     opt_alignItems = None, opt_justifyItems = None, opt_honeycombOrientation = None,
     opt_cornerOffset = None, opt_excludeCorners = None, opt_priorityDirection = None,
     opt_overflowAlignment = None, opt_equalDistribution = None, opt_startCorner = None,
     opt_direction = None, opt_offset = None, opt_globalRotation = None,
     opt_perspectiveY = None, opt_depthScale = None, opt_enableZIndex = None\<rparr>"

text \<open>A plain item of the given size at the origin, with no optional field.\<close>

definition item :: "real \<Rightarrow> real \<Rightarrow> LayoutComponent" where
  "item w h = \<lparr>position = (0, 0), scale = None, visible = None, zIndex = None,
     width = w, height = h, comp_value = None, colSpan = None, rowSpan = None\<rparr>"

text \<open>Destructuring default \<^verbatim>\<open>{ k = d } = options\<close> and \<^verbatim>\<open>a ?? d\<close>.\<close>

definition dflt :: "'a \<Rightarrow> 'a option \<Rightarrow> 'a" where
  "dflt d v = (case v of None \<Rightarrow> d | Some a \<Rightarrow> a)"

text \<open>Truthiness of an optional number: defined and non-zero.\<close>

definition truthy :: "real option \<Rightarrow> bool" where
  "truthy v = (case v of None \<Rightarrow> False | Some a \<Rightarrow> a \<noteq> 0)"

definition zero_bounds :: Bounds where
  "zero_bounds = \<lparr>minX = 0, minY = 0, maxX = 0, maxY = 0\<rparr>"

section \<open>Cell metrics\<close>

record CellSize =
  maxChildWidth :: real
  maxChildHeight :: real
  cellWidth :: real
  cellHeight :: real
  columnGap :: real
  rowGap :: real

text \<open>The loop \<^verbatim>\<open>if (child.width > maxChildWidth) maxChildWidth = child.width\<close>.\<close>

fun max_over :: "(LayoutComponent \<Rightarrow> real) \<Rightarrow> LayoutComponent list \<Rightarrow> real \<Rightarrow> real" where
  "max_over f [] m = m"
| "max_over f (child # cs) m = max_over f cs (if f child > m then f child else m)"

definition calculateGridCellSize :: "LayoutComponent list \<Rightarrow> LayoutOptions \<Rightarrow> CellSize" where
  "calculateGridCellSize components options =
    (let cg = (case opt_columnGap options of Some g \<Rightarrow> g | None \<Rightarrow> dflt 0 (opt_spacing options));
         rg = (case opt_rowGap options of Some g \<Rightarrow> g | None \<Rightarrow> dflt 0 (opt_spacing options))
     in if opt_sizingMode options = Some ''fixed'' \<and> truthy (opt_fixedWidth options)
           \<and> truthy (opt_fixedHeight options)
        then \<lparr>maxChildWidth = the (opt_fixedWidth options),
              maxChildHeight = the (opt_fixedHeight options),
              cellWidth = the (opt_fixedWidth options) + cg,
              cellHeight = the (opt_fixedHeight options) + rg,
              columnGap = cg, rowGap = rg\<rparr>
        else let mw = max_over width components 0; mh = max_over height components 0
             in \<lparr>maxChildWidth = mw, maxChildHeight = mh, cellWidth = mw + cg,
                  cellHeight = mh + rg, columnGap = cg, rowGap = rg\<rparr>)"

section \<open>JavaScript arithmetic and strings\<close>

text \<open>
  What a layout returns: the components as the call leaves them (the source mutates them
  in place) and the bounding box. Three ways of not returning this are kept apart:
  a number of the result is \<^verbatim>\<open>NaN\<close> or infinite (division by zero), the call
  throws a \<^verbatim>\<open>RangeError\<close>, or it does not end.
\<close>

datatype failure = NonFinite | RangeError | Diverges

type_synonym layout_result = "failure + (LayoutComponent list \<times> Bounds)"

text \<open>\<^verbatim>\<open>Math.ceil(a / b)\<close> and \<^verbatim>\<open>a % b\<close> on integers, for \<open>b \<noteq> 0\<close>;
  \<^verbatim>\<open>Math.floor(a / b)\<close> is \<open>a div b\<close>. The remainder has the sign of \<open>a\<close>.\<close>

definition js_ceil_div :: "int \<Rightarrow> int \<Rightarrow> int" where
  "js_ceil_div a b = - ((- a) div b)"

definition js_rem :: "int \<Rightarrow> int \<Rightarrow> int" where
  "js_rem a b = sgn a * (\<bar>a\<bar> mod \<bar>b\<bar>)"

text \<open>\<^verbatim>\<open>s.startsWith(p)\<close> and \<^verbatim>\<open>s.includes(p)\<close>.\<close>

definition startsWith :: "string \<Rightarrow> string \<Rightarrow> bool" where
  "startsWith s p = (take (length p) s = p)"

definition str_includes :: "string \<Rightarrow> string \<Rightarrow> bool" where
  "str_includes s p = list_ex (\<lambda>i. startsWith (drop i s) p) [0..<Suc (length s)]"

text \<open>\<^verbatim>\<open>forEach((child, i) => ...)\<close>: the components with their indices.\<close>

definition indexed :: "'a list \<Rightarrow> (nat \<times> 'a) list" where
  "indexed xs = zip [0..<length xs] xs"

section \<open>Bounds of placed components\<close>

definition childWidthOf :: "LayoutOptions \<Rightarrow> LayoutComponent \<Rightarrow> real" where
  "childWidthOf options child =
     (if opt_sizingMode options = Some ''fixed'' then dflt 0 (opt_fixedWidth options)
      else width child)"

definition childHeightOf :: "LayoutOptions \<Rightarrow> LayoutComponent \<Rightarrow> real" where
  "childHeightOf options child =
     (if opt_sizingMode options = Some ''fixed'' then dflt 0 (opt_fixedHeight options)
      else height child)"

text \<open>The running \<^verbatim>\<open>Math.min\<close> from \<^verbatim>\<open>Infinity\<close> (and \<^verbatim>\<open>Math.max\<close> from
  \<^verbatim>\<open>-Infinity\<close>) over a non-empty list: the first value starts the fold.\<close>

definition running :: "(real \<Rightarrow> real \<Rightarrow> real) \<Rightarrow> real list \<Rightarrow> real" where
  "running f vs = fold (\<lambda>v m. f m v) (tl vs) (hd vs)"

definition calculateBoundsFromComponents :: "LayoutComponent list \<Rightarrow> LayoutOptions \<Rightarrow> Bounds" where
  "calculateBoundsFromComponents components options =
     (if components = [] then zero_bounds
      else \<lparr>minX = running min (map (\<lambda>c. fst (position c) - childWidthOf options c / 2) components),
            minY = running min (map (\<lambda>c. snd (position c) - childHeightOf options c / 2) components),
            maxX = running max (map (\<lambda>c. fst (position c) + childWidthOf options c / 2) components),
            maxY = running max (map (\<lambda>c. snd (position c) + childHeightOf options c / 2) components)\<rparr>)"

section \<open>The simple grid\<close>

text \<open>The grid cell \<open>(finalRow, finalCol)\<close> of the item with index \<open>i\<close>.\<close>

definition simple_cell :: "int \<Rightarrow> int \<Rightarrow> string \<Rightarrow> bool \<Rightarrow> nat \<Rightarrow> int \<times> int" where
  "simple_cell columns totalRows flowDirection flowReverse i =
    (let isColumnFlow = str_includes flowDirection ''column'';
         isSnakeFlow = str_includes flowDirection ''snake'';
         startFromBottom = str_includes flowDirection ''bottom'';
         startFromRight = str_includes flowDirection ''right'';
         baseCol0 = (if isColumnFlow then int i div totalRows else js_rem (int i) columns);
         baseRow0 = (if isColumnFlow then js_rem (int i) totalRows else int i div columns);
         baseRow = (if isSnakeFlow \<and> isColumnFlow \<and> baseCol0 mod 2 \<noteq> 0
                    then totalRows - 1 - baseRow0 else baseRow0);
         baseCol = (if isSnakeFlow \<and> \<not> isColumnFlow \<and> baseRow0 mod 2 \<noteq> 0
                    then columns - 1 - baseCol0 else baseCol0);
         finalRow0 = (if startFromBottom then totalRows - 1 - baseRow else baseRow);
         finalCol = (if startFromRight then columns - 1 - baseCol else baseCol);
         finalRow = (if flowReverse \<and> \<not> startFromBottom \<and> \<not> startFromRight
                     then totalRows - 1 - baseRow else finalRow0)
     in (finalRow, finalCol))"

text \<open>
  \<^verbatim>\<open>Math.sqrt(3)\<close>, \<^verbatim>\<open>Math.sqrt\<close>, \<^verbatim>\<open>Math.cos\<close>, \<^verbatim>\<open>Math.sin\<close> and \<^verbatim>\<open>Math.PI\<close>
  are the exact real functions. They have no code equations, so that every definition
  still evaluates on the inputs that do not reach them.
\<close>

definition sqrt3 :: "unit \<Rightarrow> real" where
  "sqrt3 u = sqrt 3"

definition js_sqrt :: "real \<Rightarrow> real" where
  "js_sqrt v = sqrt v"

definition js_cos :: "real \<Rightarrow> real" where
  "js_cos a = cos a"

definition js_sin :: "real \<Rightarrow> real" where
  "js_sin a = sin a"

definition js_pi :: "unit \<Rightarrow> real" where
  "js_pi u = pi"

declare sqrt3_def [code del] js_sqrt_def [code del] js_cos_def [code del]
  js_sin_def [code del] js_pi_def [code del]

text \<open>The hexagon steps \<open>(xStep, yStep)\<close> of the honeycomb flow.\<close>

definition honeycomb_steps :: "string \<Rightarrow> CellSize \<Rightarrow> real \<times> real" where
  "honeycomb_steps honeycombOrientation m =
    (if honeycombOrientation = ''pointy-top''
     then (let hexWidth = max (maxChildWidth m) (maxChildHeight m * (2 / sqrt3 ()));
               hexHeight = hexWidth * (sqrt3 () / 2)
           in (hexWidth * 0.75 + columnGap m, hexHeight + rowGap m))
     else (let hexHeight = max (maxChildHeight m) (maxChildWidth m * (2 / sqrt3 ()));
               hexWidth = hexHeight * (sqrt3 () / 2)
           in (hexWidth + columnGap m, hexHeight * 0.75 + rowGap m)))"

definition lastRowOffsetX :: "nat \<Rightarrow> int \<Rightarrow> string \<Rightarrow> string \<Rightarrow> CellSize \<Rightarrow> real" where
  "lastRowOffsetX n columns flowDirection lastRowAlign m =
    (let gridWidth = of_int columns * cellWidth m - columnGap m;
         itemsOnLastRow = (if js_rem (int n) columns \<noteq> 0 then js_rem (int n) columns else columns)
     in if lastRowAlign \<noteq> ''start'' \<and> \<not> str_includes flowDirection ''column''
           \<and> \<not> str_includes flowDirection ''snake'' \<and> \<not> str_includes flowDirection ''right''
           \<and> itemsOnLastRow > 0 \<and> flowDirection \<noteq> ''honeycomb''
        then (let emptySpace = gridWidth - (of_int itemsOnLastRow * cellWidth m - columnGap m)
              in if lastRowAlign = ''center'' then emptySpace / 2
                 else if lastRowAlign = ''end'' then emptySpace else 0)
        else 0)"

text \<open>The center written to the item with index \<open>i\<close> by the \<^verbatim>\<open>forEach\<close> body.\<close>

definition simple_center ::
  "LayoutOptions \<Rightarrow> CellSize \<Rightarrow> int \<Rightarrow> int \<Rightarrow> nat \<Rightarrow> nat \<Rightarrow> LayoutComponent \<Rightarrow> real \<times> real" where
  "simple_center options m columns totalRows n i child =
    (let flowDirection = dflt ''default'' (opt_flowDirection options);
         flowReverse = dflt False (opt_flowReverse options);
         lastRowAlign = dflt ''start'' (opt_lastRowAlign options);
         alignItems = dflt ''start'' (opt_alignItems options);
         justifyItems = dflt ''start'' (opt_justifyItems options);
         honeycombOrientation = dflt ''pointy-top'' (opt_honeycombOrientation options);
         cornerOffset = dflt 0 (opt_cornerOffset options);
         childWidth = childWidthOf options child;
         childHeight = childHeightOf options child;
         (finalRow, finalCol) = simple_cell columns totalRows flowDirection flowReverse i;
         (xStep, yStep) = (if flowDirection = ''honeycomb''
                           then honeycomb_steps honeycombOrientation m else (0, 0));
         (cellX, cellY) =
           (if flowDirection = ''honeycomb''
            then (if honeycombOrientation = ''pointy-top''
                  then (of_int finalCol * xStep,
                        of_int finalRow * yStep + (if js_rem finalCol 2 = 1 then yStep / 2 else 0))
                  else (of_int finalCol * xStep + (if js_rem finalRow 2 = 1 then xStep / 2 else 0),
                        of_int finalRow * yStep))
            else ((if finalRow = totalRows - 1 \<and> flowDirection = ''default''
                   then lastRowOffsetX n columns flowDirection lastRowAlign m else 0)
                    + of_int finalCol * cellWidth m,
                  of_int finalRow * cellHeight m));
         childCenterX =
           (if justifyItems = ''end'' then cellX + maxChildWidth m - childWidth / 2
            else if justifyItems = ''center'' then cellX + maxChildWidth m / 2
            else cellX + childWidth / 2);
         childCenterY =
           (if alignItems = ''end'' then cellY + maxChildHeight m - childHeight / 2
            else if alignItems = ''center'' then cellY + maxChildHeight m / 2
            else cellY + childHeight / 2);
         isTop = (finalRow = 0); isBottom = (finalRow = totalRows - 1);
         isLeft = (finalCol = 0); isRight = (finalCol = columns - 1)
     in if cornerOffset \<noteq> 0 \<and> isTop \<and> isLeft then (childCenterX - cornerOffset, childCenterY - cornerOffset)
        else if cornerOffset \<noteq> 0 \<and> isTop \<and> isRight then (childCenterX + cornerOffset, childCenterY - cornerOffset)
        else if cornerOffset \<noteq> 0 \<and> isBottom \<and> isLeft then (childCenterX - cornerOffset, childCenterY + cornerOffset)
        else if cornerOffset \<noteq> 0 \<and> isBottom \<and> isRight then (childCenterX + cornerOffset, childCenterY + cornerOffset)
        else (childCenterX, childCenterY))"

text \<open>
  \<^verbatim>\<open>_layoutSquareSimple\<close>. With \<open>columns = 0\<close> the row count is
  \<^verbatim>\<open>Math.ceil(n / 0) = Infinity\<close> and the returned height is infinite or \<^verbatim>\<open>NaN\<close>; in a
  column flow with a row count of 0 (a negative \<open>columns\<close> beyond \<open>-n\<close>) the first item's
  column is \<^verbatim>\<open>Math.floor(0 / 0) = NaN\<close>.
\<close>

definition layoutSquareSimple :: "LayoutComponent list \<Rightarrow> LayoutOptions \<Rightarrow> layout_result" where
  "layoutSquareSimple components options =
    (let columns = dflt 3 (opt_columns options);
         flowDirection = dflt ''default'' (opt_flowDirection options);
         cornerOffset = dflt 0 (opt_cornerOffset options);
         n = length components
     in if components = [] then Inr (components, zero_bounds)
        else if columns = 0 then Inl NonFinite
        else
         (let m = calculateGridCellSize components options;
              totalRows = js_ceil_div (int n) columns;
              gridWidth = of_int columns * cellWidth m - columnGap m;
              placed = map (\<lambda>(i, child).
                         child\<lparr>position := simple_center options m columns totalRows n i child\<rparr>)
                       (indexed components)
          in if str_includes flowDirection ''column'' \<and> totalRows = 0 then Inl NonFinite
             else if flowDirection = ''honeycomb''
             then Inr (placed, calculateBoundsFromComponents placed options)
             else (let totalHeight = of_int totalRows * cellHeight m - rowGap m
                   in if cornerOffset > 0
                      then Inr (placed, \<lparr>minX = - cornerOffset, minY = - cornerOffset,
                                         maxX = gridWidth + cornerOffset,
                                         maxY = totalHeight + cornerOffset\<rparr>)
                      else Inr (placed, \<lparr>minX = 0, minY = 0, maxX = gridWidth,
                                         maxY = totalHeight\<rparr>))))"

section \<open>Strategies that place items at cell centers\<close>

text \<open>\<^verbatim>\<open>child.position.set(c * cellWidth + maxChildWidth / 2, r * cellHeight + maxChildHeight / 2)\<close>
  for the cell \<open>(r, c)\<close>.\<close>

definition place_at :: "CellSize \<Rightarrow> int \<times> int \<Rightarrow> LayoutComponent \<Rightarrow> LayoutComponent" where
  "place_at m pos child =
     child\<lparr>position := (of_int (snd pos) * cellWidth m + maxChildWidth m / 2,
                         of_int (fst pos) * cellHeight m + maxChildHeight m / 2)\<rparr>"

text \<open>The box \<^verbatim>\<open>{0, 0, columns * cellWidth - columnGap, totalRows * cellHeight - rowGap}\<close>.\<close>

definition grid_bounds :: "CellSize \<Rightarrow> int \<Rightarrow> int \<Rightarrow> Bounds" where
  "grid_bounds m columns totalRows =
     \<lparr>minX = 0, minY = 0, maxX = of_int columns * cellWidth m - columnGap m,
      maxY = of_int totalRows * cellHeight m - rowGap m\<rparr>"

text \<open>\<^verbatim>\<open>components.forEach((child, i) => { if (i >= positions.length) return; ... })\<close>:
  the first items take the positions in order, the others are not touched.\<close>

fun assign_positions :: "CellSize \<Rightarrow> (int \<times> int) list \<Rightarrow> LayoutComponent list \<Rightarrow> LayoutComponent list" where
  "assign_positions m [] cs = cs"
| "assign_positions m (p # ps) [] = []"
| "assign_positions m (p # ps) (child # cs) = place_at m p child # assign_positions m ps cs"

subsection \<open>Boustrophedon\<close>

definition layoutSquareBoustrophedon :: "LayoutComponent list \<Rightarrow> LayoutOptions \<Rightarrow> layout_result" where
  "layoutSquareBoustrophedon components options =
    (let columns = dflt 5 (opt_columns options)
     in if components = [] then Inr (components, zero_bounds)
        else if columns = 0 then Inl NonFinite
        else
         (let m = calculateGridCellSize components options;
              placed = map (\<lambda>(i, child).
                  let row = int i div columns;
                      baseCol = js_rem (int i) columns;
                      isReversedRow = (row mod 2 \<noteq> 0);
                      col = (if isReversedRow then columns - 1 - baseCol else baseCol);
                      child1 = place_at m (row, col) child
                  in (case scale child1 of
                        None \<Rightarrow> child1
                      | Some sc \<Rightarrow> child1\<lparr>scale := Some (if isReversedRow then - 1 else 1, snd sc)\<rparr>))
                (indexed components)
          in Inr (placed, grid_bounds m columns (js_ceil_div (int (length components)) columns))))"

subsection \<open>Hilbert curve\<close>

text \<open>
  \<^verbatim>\<open>Math.pow(2, Math.ceil(Math.log2(v)))\<close> for an integer \<open>v \<ge> 1\<close>: the smallest power
  of two that is at least \<open>v\<close>, found by doubling from \<open>p = 1\<close>.
\<close>

function pow2_ceil_from :: "nat \<Rightarrow> nat \<Rightarrow> nat" where
  "pow2_ceil_from p v = (if 0 < p \<and> p < v then pow2_ceil_from (2 * p) v else p)"
  by pat_completeness auto
termination
  by (relation "measure (\<lambda>(p, v). v - p)") auto

definition pow2_ceil :: "nat \<Rightarrow> nat" where
  "pow2_ceil v = pow2_ceil_from 1 v"

text \<open>
  The loop of \<^verbatim>\<open>d2xy\<close>: \<open>s\<close> starts at 1 and doubles while \<open>s < n\<close> (so \<open>0 < s\<close>
  holds throughout; it is in the guard for the termination proof). The source keeps
  \<open>t\<close> as a double and divides it by 4; \<^verbatim>\<open>&\<close> and \<^verbatim>\<open>^\<close> truncate their operands,
  so only the integer part of \<open>t\<close> is ever read, and that is \<open>t div 4\<close>. The body of
  the loop is \<open>d2xy_step\<close>; in it \<open>x\<close> and \<open>y\<close> are below \<open>s\<close>, so \<open>s - 1 - x\<close> is
  never negative.
\<close>

definition d2xy_step :: "nat \<Rightarrow> nat \<Rightarrow> nat \<Rightarrow> nat \<Rightarrow> nat \<times> nat" where
  "d2xy_step s t x y =
    (let rx = 1 AND (t div 2);
         ry = 1 AND (t XOR rx);
         (x1, y1) = (if ry = 0
                     then (if rx = 1 then (s - 1 - y, s - 1 - x) else (y, x))
                     else (x, y))
     in (x1 + s * rx, y1 + s * ry))"

function d2xy_loop :: "nat \<Rightarrow> nat \<Rightarrow> nat \<Rightarrow> nat \<Rightarrow> nat \<Rightarrow> nat \<times> nat" where
  "d2xy_loop n s t x y =
    (if 0 < s \<and> s < n
     then (case d2xy_step s t x y of (x2, y2) \<Rightarrow> d2xy_loop n (s * 2) (t div 4) x2 y2)
     else (x, y))"
  by pat_completeness auto
termination
  by (relation "measure (\<lambda>(n, s, t, x, y). n - s)") auto

text \<open>\<^verbatim>\<open>d2xy(d)\<close> returns \<^verbatim>\<open>{ r: x, c: y }\<close>.\<close>

definition d2xy :: "nat \<Rightarrow> nat \<Rightarrow> nat \<times> nat" where
  "d2xy n d = d2xy_loop n 1 d 0 0"

definition allPositionsOnCurve :: "nat \<Rightarrow> (nat \<times> nat) list" where
  "allPositionsOnCurve n = map (d2xy n) [0..<n * n]"

text \<open>The placement loop: it stops when the items are used up, skips a position outside
  the grid, and gives a position inside the grid to the next item.\<close>

fun place_in_grid ::
  "CellSize \<Rightarrow> nat \<Rightarrow> nat \<Rightarrow> (nat \<times> nat) list \<Rightarrow> LayoutComponent list \<Rightarrow> LayoutComponent list" where
  "place_in_grid m totalRows columns ps [] = []"
| "place_in_grid m totalRows columns [] cs = cs"
| "place_in_grid m totalRows columns (pos # ps) (child # cs) =
     (if fst pos < totalRows \<and> snd pos < columns
      then place_at m (int (fst pos), int (snd pos)) child # place_in_grid m totalRows columns ps cs
      else place_in_grid m totalRows columns ps (child # cs))"

text \<open>
  \<^verbatim>\<open>_layoutSquareHilbertCurve\<close>. With \<open>columns = 0\<close> the side \<open>n\<close> is infinite and the
  generation loop does not end. With \<open>columns < 0\<close> the row count is at most 0,
  \<^verbatim>\<open>Math.log2\<close> gives \<^verbatim>\<open>NaN\<close> or \<^verbatim>\<open>-Infinity\<close>, and no loop runs (\<open>n\<close> is 0 here).
\<close>

definition layoutSquareHilbertCurve :: "LayoutComponent list \<Rightarrow> LayoutOptions \<Rightarrow> layout_result" where
  "layoutSquareHilbertCurve components options =
    (let columns = dflt 4 (opt_columns options)
     in if components = [] then Inr (components, zero_bounds)
        else if columns = 0 then Inl Diverges
        else
         (let m = calculateGridCellSize components options;
              totalRows = js_ceil_div (int (length components)) columns;
              n = (if max columns totalRows \<le> 0 then 0 else pow2_ceil (nat (max columns totalRows)))
          in Inr (place_in_grid m (nat totalRows) (nat columns) (allPositionsOnCurve n) components,
                  grid_bounds m columns totalRows)))"

subsection \<open>Z-order\<close>

text \<open>
  The recursive \<^verbatim>\<open>generate(x, y, size)\<close>; \<^verbatim>\<open>positions\<close> is threaded through the
  four calls. The caller passes a power of two, so the size \<open>sz\<close> halves exactly down to 1
  and the branch \<open>sz = 0\<close> is never taken.
\<close>

function generate ::
  "nat \<Rightarrow> nat \<Rightarrow> nat \<Rightarrow> nat \<Rightarrow> nat \<Rightarrow> nat \<Rightarrow> (nat \<times> nat) list \<Rightarrow> (nat \<times> nat) list" where
  "generate n totalRows columns x y sz positions =
    (if length positions \<ge> n then positions
     else if sz = 1
     then (if y < totalRows \<and> x < columns then positions @ [(y, x)] else positions)
     else if sz = 0 then positions
     else (let s = sz div 2;
               p1 = generate n totalRows columns x y s positions;
               p2 = generate n totalRows columns (x + s) y s p1;
               p3 = generate n totalRows columns x (y + s) s p2
           in generate n totalRows columns (x + s) (y + s) s p3))"
  by pat_completeness auto
termination
  by (relation "measure (\<lambda>(n, totalRows, columns, x, y, sz, positions). sz)") auto

text \<open>
  The same quadrant recursion with neither the bound on the number of positions nor the
  test against the grid: the full Z-order sequence of the square of side \<open>sz\<close> at
  \<open>(x, y)\<close>, against which \<open>generate\<close> is compared.
\<close>

function full_z_order :: "nat \<Rightarrow> nat \<Rightarrow> nat \<Rightarrow> (nat \<times> nat) list" where
  "full_z_order x y sz =
    (if sz = 1 then [(y, x)]
     else if sz = 0 then []
     else (let s = sz div 2
           in full_z_order x y s @ full_z_order (x + s) y s
              @ full_z_order x (y + s) s @ full_z_order (x + s) (y + s) s))"
  by pat_completeness auto
termination
  by (relation "measure (\<lambda>(x, y, sz). sz)") auto

text \<open>
  \<^verbatim>\<open>_layoutSquareZOrder\<close>. With \<open>columns \<le> 0\<close> the side is 0, \<^verbatim>\<open>NaN\<close> or infinite,
  \<^verbatim>\<open>generate\<close> never reaches \<open>size === 1\<close> and the recursion overflows the stack.
\<close>

definition layoutSquareZOrder :: "LayoutComponent list \<Rightarrow> LayoutOptions \<Rightarrow> layout_result" where
  "layoutSquareZOrder components options =
    (let columns = dflt 4 (opt_columns options)
     in if components = [] then Inr (components, zero_bounds)
        else if columns \<le> 0 then Inl RangeError
        else
         (let m = calculateGridCellSize components options;
              totalRows = js_ceil_div (int (length components)) columns;
              gridDim = pow2_ceil (nat (max columns totalRows));
              positions = generate (length components) (nat totalRows) (nat columns) 0 0 gridDim []
          in Inr (assign_positions m (map (\<lambda>(r, c). (int r, int c)) positions) components,
                  grid_bounds m columns totalRows)))"

subsection \<open>Corner-converge\<close>

text \<open>The four legs of one ring, each without its last cell (\<^verbatim>\<open>pop()\<close>).\<close>

definition ring_paths :: "int \<Rightarrow> int \<Rightarrow> int \<Rightarrow> int \<Rightarrow> (int \<times> int) list list" where
  "ring_paths minR maxR minC maxC =
    (let pathTL = butlast (map (\<lambda>i. (minR, minC + i)) [0..maxC - minC]);
         pathBR = butlast (map (\<lambda>i. (maxR, maxC - i)) [0..maxC - minC]);
         pathTR = butlast (map (\<lambda>i. (minR + i, maxC)) [0..maxR - minR]);
         pathBL = butlast (map (\<lambda>i. (maxR - i, minC)) [0..maxR - minR])
     in [pathTL, pathTR, pathBR, pathBL])"

text \<open>The round-robin over the legs.\<close>

definition interleave :: "'a list list \<Rightarrow> 'a list" where
  "interleave paths =
     concat (map (\<lambda>i. concat (map (\<lambda>p. if i < length p then [p ! i] else []) paths))
                 [0..<fold max (map length paths) 0])"

function converge_shells ::
  "nat \<Rightarrow> int \<Rightarrow> int \<Rightarrow> int \<Rightarrow> int \<Rightarrow> (int \<times> int) list \<Rightarrow> (int \<times> int) list" where
  "converge_shells n minR maxR minC maxC finalPositions =
    (if length finalPositions < n \<and> minR \<le> maxR \<and> minC \<le> maxC
     then converge_shells n (minR + 1) (maxR - 1) (minC + 1) (maxC - 1)
            (finalPositions @ interleave (ring_paths minR maxR minC maxC))
     else finalPositions)"
  by pat_completeness auto
termination
  by (relation "measure (\<lambda>(n, minR, maxR, minC, maxC, ps). nat (maxR - minR + 1))") auto

text \<open>\<^verbatim>\<open>_layoutSquareCornerConverge\<close>. With \<open>columns = 0\<close> the row count and the returned
  height are infinite.\<close>

definition layoutSquareCornerConverge :: "LayoutComponent list \<Rightarrow> LayoutOptions \<Rightarrow> layout_result" where
  "layoutSquareCornerConverge components options =
    (let columns = dflt 5 (opt_columns options)
     in if components = [] then Inr (components, zero_bounds)
        else if columns = 0 then Inl NonFinite
        else
         (let m = calculateGridCellSize components options;
              totalRows = js_ceil_div (int (length components)) columns;
              finalPositions = converge_shells (length components) 0 (totalRows - 1) 0 (columns - 1) []
          in Inr (assign_positions m finalPositions components, grid_bounds m columns totalRows)))"

subsection \<open>Diamond-fill\<close>

text \<open>The valid cells of row \<open>r\<close>.\<close>

definition diamond_row :: "int \<Rightarrow> int \<Rightarrow> int \<Rightarrow> (int \<times> int) list" where
  "diamond_row columns totalRows r =
    (let centerX = (of_int columns - 1) / 2 :: real;
         centerY = (of_int totalRows - 1) / 2 :: real;
         verticalProgress = (if centerY > 0 then \<bar>of_int r - centerY\<bar> / centerY else 0);
         diamondWidth = max 1 (of_int columns * (1 - verticalProgress));
         startCol = \<lceil>centerX - diamondWidth / 2\<rceil>;
         endCol = \<lfloor>centerX + diamondWidth / 2\<rfloor>
     in map (\<lambda>c. (r, c)) (filter (\<lambda>c. c \<ge> 0 \<and> c < columns) [startCol..endCol]))"

definition validPositions :: "int \<Rightarrow> int \<Rightarrow> (int \<times> int) list" where
  "validPositions columns totalRows = concat (map (diamond_row columns totalRows) [0..totalRows - 1])"

text \<open>The \<^verbatim>\<open>forEach\<close>: an item with a position is placed, any other item is hidden when
  it has a \<^verbatim>\<open>visible\<close> field.\<close>

fun place_or_hide :: "CellSize \<Rightarrow> (int \<times> int) list \<Rightarrow> LayoutComponent list \<Rightarrow> LayoutComponent list" where
  "place_or_hide m ps [] = []"
| "place_or_hide m [] (child # cs) =
     (if visible child \<noteq> None then child\<lparr>visible := Some False\<rparr> else child) # place_or_hide m [] cs"
| "place_or_hide m (p # ps) (child # cs) = place_at m p child # place_or_hide m ps cs"

text \<open>\<^verbatim>\<open>_layoutSquareDiamondFill\<close>. With \<open>columns = 0\<close> the loop over the rows does not end.\<close>

definition layoutSquareDiamondFill :: "LayoutComponent list \<Rightarrow> LayoutOptions \<Rightarrow> layout_result" where
  "layoutSquareDiamondFill components options =
    (let columns = dflt 5 (opt_columns options)
     in if components = [] then Inr (components, zero_bounds)
        else if columns = 0 then Inl Diverges
        else
         (let m = calculateGridCellSize components options;
              totalRows = js_ceil_div (int (length components)) columns
          in Inr (place_or_hide m (validPositions columns totalRows) components,
                  grid_bounds m columns totalRows)))"

section \<open>The occupancy-grid spanning placer\<close>

text \<open>
  The occupancy grid is an array of rows, each created as \<^verbatim>\<open>Array(columns).fill(false)\<close>.
  A read beyond the end of a row gives \<^verbatim>\<open>undefined\<close>, which is falsy; a write beyond
  the end of a row makes the row longer (the holes it leaves read as \<^verbatim>\<open>undefined\<close>).
\<close>

type_synonym occupancy = "bool list list"

definition occupied :: "occupancy \<Rightarrow> nat \<Rightarrow> nat \<Rightarrow> bool" where
  "occupied grid r c = (r < length grid \<and> c < length (grid ! r) \<and> grid ! r ! c)"

definition set_true :: "bool list \<Rightarrow> nat \<Rightarrow> bool list" where
  "set_true row j =
     (if j < length row then row[j := True] else row @ replicate (j - length row) False @ [True])"

text \<open>\<^verbatim>\<open>while (occupancyGrid.length <= searchRow + rowSpan - 1) occupancyGrid.push(...)\<close>,
  with \<open>bound = searchRow + rowSpan\<close>.\<close>

definition ensure_rows :: "occupancy \<Rightarrow> nat \<Rightarrow> nat \<Rightarrow> occupancy" where
  "ensure_rows grid columns bound = grid @ replicate (bound - length grid) (replicate columns False)"

definition canFit :: "occupancy \<Rightarrow> nat \<Rightarrow> nat \<Rightarrow> nat \<Rightarrow> nat \<Rightarrow> bool" where
  "canFit grid searchRow rSpan cSpan c =
     list_all (\<lambda>r_offset. list_all (\<lambda>c_offset. \<not> occupied grid (searchRow + r_offset) (c + c_offset))
                                    [0..<cSpan])
              [0..<rSpan]"

definition mark_block :: "occupancy \<Rightarrow> nat \<Rightarrow> nat \<Rightarrow> nat \<Rightarrow> nat \<Rightarrow> occupancy" where
  "mark_block grid searchRow rSpan cSpan c =
     fold (\<lambda>r_offset g.
             fold (\<lambda>c_offset g1.
                     g1[searchRow + r_offset := set_true (g1 ! (searchRow + r_offset)) (c + c_offset)])
                  [0..<cSpan] g)
          [0..<rSpan] grid"

text \<open>
  The start columns tried in one row, in the order of
  \<^verbatim>\<open>for (let c = startCol; c !== endCol; c += step)\<close>: from 0 up to \<open>columns - 1\<close>, or on a
  snake row from \<open>columns - colSpan\<close> down to 0 (\<open>colSpan\<close> is at most \<open>columns\<close>).
\<close>

definition candidates :: "nat \<Rightarrow> nat \<Rightarrow> bool \<Rightarrow> nat list" where
  "candidates columns cSpan isSnakeRow =
     (if isSnakeRow then rev [0..<Suc (columns - cSpan)] else [0..<columns])"

text \<open>
  \<^verbatim>\<open>while (!foundPosition)\<close>: the search over the rows for one item. It yields the grid
  with the block marked, the row and the column; \<open>None\<close> is a search that does not end.
\<close>

partial_function (option) find_position ::
  "occupancy \<Rightarrow> nat \<Rightarrow> bool \<Rightarrow> nat \<Rightarrow> nat \<Rightarrow> nat \<Rightarrow> (occupancy \<times> nat \<times> nat) option" where
  "find_position grid columns snake rSpan cSpan searchRow =
    (let grid1 = ensure_rows grid columns (searchRow + rSpan);
         isSnakeRow = (snake \<and> searchRow mod 2 \<noteq> 0)
     in case find (canFit grid1 searchRow rSpan cSpan) (candidates columns cSpan isSnakeRow) of
          Some c \<Rightarrow> Some (mark_block grid1 searchRow rSpan cSpan c, searchRow, c)
        | None \<Rightarrow> find_position grid1 columns snake rSpan cSpan (searchRow + 1))"

declare find_position.simps [code]

record PlacedItem =
  p_component :: LayoutComponent
  p_row :: nat
  p_col :: nat
  p_rowSpan :: nat
  p_colSpan :: nat
  p_childWidth :: real
  p_childHeight :: real

text \<open>\<^verbatim>\<open>child.colSpan || 1\<close>: a missing span, and the span 0, count as 1.\<close>

definition span_or_1 :: "nat option \<Rightarrow> nat" where
  "span_or_1 v = (case v of None \<Rightarrow> 1 | Some k \<Rightarrow> if k = 0 then 1 else k)"

text \<open>The first loop over the items: state is the grid, \<^verbatim>\<open>maxRowUsed\<close> and
  \<^verbatim>\<open>placedItems\<close>.\<close>

fun place_items ::
  "LayoutOptions \<Rightarrow> nat \<Rightarrow> bool \<Rightarrow> LayoutComponent list \<Rightarrow> occupancy \<times> nat \<times> PlacedItem list
     \<Rightarrow> (occupancy \<times> nat \<times> PlacedItem list) option" where
  "place_items options columns snake [] st = Some st"
| "place_items options columns snake (child # cs) (grid, maxRowUsed, placedItems) =
    (let cSpan = min (span_or_1 (colSpan child)) columns;
         rSpan = span_or_1 (rowSpan child)
     in case find_position grid columns snake rSpan cSpan 0 of
          None \<Rightarrow> None
        | Some (grid1, searchRow, c) \<Rightarrow>
            place_items options columns snake cs
              (grid1, max maxRowUsed (searchRow + rSpan - 1),
               placedItems @ [\<lparr>p_component = child, p_row = searchRow, p_col = c,
                                p_rowSpan = rSpan, p_colSpan = cSpan,
                                p_childWidth = childWidthOf options child,
                                p_childHeight = childHeightOf options child\<rparr>]))"

text \<open>The second loop: the center of a placed item.\<close>

definition spanning_center :: "LayoutOptions \<Rightarrow> CellSize \<Rightarrow> nat \<Rightarrow> nat \<Rightarrow> PlacedItem \<Rightarrow> real \<times> real" where
  "spanning_center options m columns totalRows it =
    (let alignItems = dflt ''start'' (opt_alignItems options);
         justifyItems = dflt ''start'' (opt_justifyItems options);
         cornerOffset = dflt 0 (opt_cornerOffset options);
         spannedWidth = of_nat (p_colSpan it) * cellWidth m - columnGap m;
         spannedHeight = of_nat (p_rowSpan it) * cellHeight m - rowGap m;
         cellX = of_nat (p_col it) * cellWidth m;
         cellY = of_nat (p_row it) * cellHeight m;
         childCenterX =
           (if justifyItems = ''end'' then cellX + spannedWidth - p_childWidth it / 2
            else if justifyItems = ''center'' then cellX + spannedWidth / 2
            else cellX + p_childWidth it / 2);
         childCenterY =
           (if alignItems = ''end'' then cellY + spannedHeight - p_childHeight it / 2
            else if alignItems = ''center'' then cellY + spannedHeight / 2
            else cellY + p_childHeight it / 2);
         isTop = (p_row it = 0); isBottom = (p_row it + p_rowSpan it = totalRows);
         isLeft = (p_col it = 0); isRight = (p_col it + p_colSpan it = columns);
         nudge = (\<lambda>b dx dy (x, y). if cornerOffset \<noteq> 0 \<and> b then (x + dx, y + dy) else (x, y))
     in nudge (isBottom \<and> isRight) cornerOffset cornerOffset
         (nudge (isBottom \<and> isLeft) (- cornerOffset) cornerOffset
           (nudge (isTop \<and> isRight) cornerOffset (- cornerOffset)
             (nudge (isTop \<and> isLeft) (- cornerOffset) (- cornerOffset)
               (childCenterX, childCenterY)))))"

text \<open>
  \<^verbatim>\<open>_layoutSquareWithSpanning\<close>. With a negative \<open>columns\<close> the first
  \<^verbatim>\<open>Array(columns)\<close> throws a \<^verbatim>\<open>RangeError\<close>.
\<close>

definition layoutSquareWithSpanning :: "LayoutComponent list \<Rightarrow> LayoutOptions \<Rightarrow> layout_result" where
  "layoutSquareWithSpanning components options =
    (let columns = dflt 3 (opt_columns options);
         flowDirection = dflt ''default'' (opt_flowDirection options);
         cornerOffset = dflt 0 (opt_cornerOffset options)
     in if components = [] then Inr (components, zero_bounds)
        else if columns < 0 then Inl RangeError
        else
         (let m = calculateGridCellSize components options
          in case place_items options (nat columns) (flowDirection = ''snake'') components ([], 0, []) of
               None \<Rightarrow> Inl Diverges
             | Some (occupancyGrid, maxRowUsed, placedItems) \<Rightarrow>
                 (let totalRows = maxRowUsed + 1;
                      placed = map (\<lambda>it. (p_component it)\<lparr>position :=
                                       spanning_center options m (nat columns) totalRows it\<rparr>)
                                   placedItems;
                      gridWidth = of_int columns * cellWidth m - columnGap m;
                      totalHeight = of_nat totalRows * cellHeight m - rowGap m
                  in if cornerOffset > 0
                     then Inr (placed, \<lparr>minX = - cornerOffset, minY = - cornerOffset,
                                        maxX = gridWidth + cornerOffset,
                                        maxY = totalHeight + cornerOffset\<rparr>)
                     else Inr (placed, \<lparr>minX = 0, minY = 0, maxX = gridWidth,
                                        maxY = totalHeight\<rparr>))))"

section \<open>The perimeter grid\<close>

datatype edge = Top | Right | Bottom | Left

text \<open>Step 1: the effective row count.\<close>

definition effective_rows :: "nat \<Rightarrow> int \<Rightarrow> int \<Rightarrow> bool \<Rightarrow> bool \<Rightarrow> int" where
  "effective_rows numComponents columns rows autoRows excludeCorners =
    (let effectiveRows =
           (if autoRows
            then (let hSlots = (if excludeCorners then max 0 (columns - 2) * 2 else columns * 2);
                      remaining = max 0 (int numComponents - hSlots)
                  in js_ceil_div remaining 2 + 2)
            else rows)
     in max (if excludeCorners then 2 else 1) effectiveRows)"

text \<open>Step 2: the capacity of each edge.\<close>

definition edge_caps :: "int \<Rightarrow> int \<Rightarrow> string \<Rightarrow> bool \<Rightarrow> edge \<Rightarrow> int" where
  "edge_caps columns effectiveRows priorityDirection excludeCorners =
    (let caps = (if priorityDirection = ''rows''
                 then (\<lambda>k. 0)(Left := effectiveRows, Right := effectiveRows,
                               Top := max 0 (columns - 2), Bottom := max 0 (columns - 2))
                 else (\<lambda>k. 0)(Top := columns, Bottom := columns,
                               Left := max 0 (effectiveRows - 2), Right := max 0 (effectiveRows - 2)))
     in if excludeCorners
        then (if priorityDirection = ''rows''
              then caps(Left := max 0 (caps Left - 2), Right := max 0 (caps Right - 2))
              else caps(Top := max 0 (caps Top - 2), Bottom := max 0 (caps Bottom - 2)))
        else caps)"

text \<open>\<^verbatim>\<open>forEach(k => { budgets[k] = caps[k]; remaining -= caps[k]; })\<close>\<close>

definition fill_to_capacity :: "(edge \<Rightarrow> int) \<Rightarrow> edge list \<Rightarrow> (edge \<Rightarrow> int) \<times> int \<Rightarrow> (edge \<Rightarrow> int) \<times> int" where
  "fill_to_capacity caps ks st =
     fold (\<lambda>k (budgets, remaining). (budgets(k := caps k), remaining - caps k)) ks st"

text \<open>\<^verbatim>\<open>forEach(k => { const take = Math.min(caps[k], remaining); budgets[k] = take; remaining -= take; })\<close>\<close>

definition take_in_turn :: "(edge \<Rightarrow> int) \<Rightarrow> edge list \<Rightarrow> (edge \<Rightarrow> int) \<times> int \<Rightarrow> (edge \<Rightarrow> int) \<times> int" where
  "take_in_turn caps ks st =
     fold (\<lambda>k (budgets, remaining).
             (let take = min (caps k) remaining in (budgets(k := take), remaining - take))) ks st"

text \<open>\<^verbatim>\<open>forEach(k => { budgets[k] = Math.min(caps[k], perEdge + (extra > 0 ? 1 : 0)); if (extra > 0) extra--; })\<close>\<close>

definition share_equally :: "(edge \<Rightarrow> int) \<Rightarrow> int \<Rightarrow> edge list \<Rightarrow> (edge \<Rightarrow> int) \<times> int \<Rightarrow> (edge \<Rightarrow> int) \<times> int" where
  "share_equally caps perEdge ks st =
     fold (\<lambda>k (budgets, extra).
             (budgets(k := min (caps k) (perEdge + (if extra > 0 then 1 else 0))),
              if extra > 0 then extra - 1 else extra)) ks st"

text \<open>Step 2, continued: the budget of each edge.\<close>

definition allocate_budgets :: "nat \<Rightarrow> (edge \<Rightarrow> int) \<Rightarrow> string \<Rightarrow> bool \<Rightarrow> edge \<Rightarrow> int" where
  "allocate_budgets numComponents caps priorityDirection equalDistribution =
    (let budgets = (\<lambda>k. 0);
         remaining = int numComponents;
         primary = (if priorityDirection = ''rows'' then [Left, Right] else [Top, Bottom]);
         secondary = (if priorityDirection = ''rows'' then [Top, Bottom] else [Left, Right]);
         totalPrimaryCap = fold (\<lambda>k sum. sum + caps k) primary 0
     in if remaining \<ge> totalPrimaryCap
        then (let (budgets1, remaining1) = fill_to_capacity caps primary (budgets, remaining);
                  pool = filter (\<lambda>k. caps k > 0) secondary
              in if equalDistribution \<and> length pool > 0
                 then (let perEdge = remaining1 div int (length pool);
                           extra = js_rem remaining1 (int (length pool))
                       in fst (share_equally caps perEdge pool (budgets1, extra)))
                 else fst (take_in_turn caps secondary (budgets1, remaining1)))
        else if equalDistribution
        then (let perEdge = remaining div int (length primary);
                  extra = js_rem remaining (int (length primary))
              in fst (share_equally caps perEdge primary (budgets, extra)))
        else fst (take_in_turn caps primary (budgets, remaining)))"

text \<open>Step 3: the clockwise loop of boundary slots.\<close>

record PathSlot =
  slot_r :: int
  slot_c :: int
  slot_edge :: edge
  slot_isCorner :: bool

definition build_loop :: "int \<Rightarrow> int \<Rightarrow> string \<Rightarrow> PathSlot list" where
  "build_loop maxR maxC priorityDirection =
    (let loop =
           map (\<lambda>c. \<lparr>slot_r = 0, slot_c = c, slot_edge = Top, slot_isCorner = (c = 0 \<or> c = maxC)\<rparr>) [0..maxC]
         @ map (\<lambda>r. \<lparr>slot_r = r, slot_c = maxC, slot_edge = Right, slot_isCorner = False\<rparr>) [1..maxR - 1]
         @ map (\<lambda>c. \<lparr>slot_r = maxR, slot_c = c, slot_edge = Bottom, slot_isCorner = (c = 0 \<or> c = maxC)\<rparr>)
               (rev [0..maxC])
         @ map (\<lambda>r. \<lparr>slot_r = r, slot_c = 0, slot_edge = Left, slot_isCorner = False\<rparr>) (rev [1..maxR - 1])
     in if priorityDirection = ''rows''
        then map (\<lambda>s. let s1 = (if slot_c s = 0 then s\<lparr>slot_edge := Left\<rparr> else s)
                       in if slot_c s1 = maxC then s1\<lparr>slot_edge := Right\<rparr> else s1) loop
        else loop)"

text \<open>\<^verbatim>\<open>Math.round(a / b)\<close> for \<open>a \<ge> 0\<close> and \<open>b > 0\<close>.\<close>

definition js_round_div :: "int \<Rightarrow> int \<Rightarrow> int" where
  "js_round_div a b = (2 * a + b) div (2 * b)"

text \<open>
  Step 4: the active slots of one edge. \<^verbatim>\<open>activeSlots\<close> is a set of slot objects; a slot
  object is identified here by its index in the loop. An index outside the edge's slots
  adds \<^verbatim>\<open>undefined\<close> to the set, which no slot of the path equals.
\<close>

definition active_of_edge ::
  "(nat \<times> PathSlot) list \<Rightarrow> (edge \<Rightarrow> int) \<Rightarrow> bool \<Rightarrow> string \<Rightarrow> edge \<Rightarrow> nat list" where
  "active_of_edge loop budgets excludeCorners overflowAlignment name =
    (let budget = budgets name;
         slots0 = filter (\<lambda>(k, s). slot_edge s = name) loop;
         slots = (if excludeCorners then filter (\<lambda>(k, s). \<not> slot_isCorner s) slots0 else slots0);
         count = int (length slots);
         picks = (if overflowAlignment = ''justify-corners'' \<and> count > 1 \<and> budget > 1
                  then map (\<lambda>i. js_round_div (i * (count - 1)) (budget - 1)) [0..budget - 1]
                  else if overflowAlignment = ''center''
                  then (let start = (count - budget) div 2 in [start..start + budget - 1])
                  else if overflowAlignment = ''end'' then [count - budget..count - 1]
                  else [0..budget - 1])
     in if budget \<le> 0 \<or> count = 0 then []
        else map (\<lambda>i. fst (slots ! nat i)) (filter (\<lambda>i. 0 \<le> i \<and> i < count) picks))"

text \<open>\<^verbatim>\<open>findIndex\<close> (\<open>-1\<close> when nothing matches) and \<^verbatim>\<open>slice\<close> with its negative indices.\<close>

fun findIndex :: "('a \<Rightarrow> bool) \<Rightarrow> 'a list \<Rightarrow> int" where
  "findIndex P [] = - 1"
| "findIndex P (a # as) = (if P a then 0 else (let k = findIndex P as in if k < 0 then - 1 else k + 1))"

definition slice_index :: "'a list \<Rightarrow> int \<Rightarrow> nat" where
  "slice_index xs k = (if k < 0 then nat (max 0 (int (length xs) + k)) else min (nat k) (length xs))"

definition slice :: "'a list \<Rightarrow> int \<Rightarrow> int \<Rightarrow> 'a list" where
  "slice xs a b = drop (slice_index xs a) (take (slice_index xs b) xs)"

text \<open>Step 5: the loop from the start corner, in the asked direction, and its active slots.\<close>

definition final_path ::
  "PathSlot list \<Rightarrow> nat list \<Rightarrow> int \<Rightarrow> int \<Rightarrow> string \<Rightarrow> string \<Rightarrow> PathSlot list" where
  "final_path loop activeSlots maxR maxC startCorner direction =
    (let startIdx = findIndex (\<lambda>s.
             if startCorner = ''top-left'' then slot_r s = 0 \<and> slot_c s = 0
             else if startCorner = ''top-right'' then slot_r s = 0 \<and> slot_c s = maxC
             else if startCorner = ''bottom-right'' then slot_r s = maxR \<and> slot_c s = maxC
             else if startCorner = ''bottom-left'' then slot_r s = maxR \<and> slot_c s = 0
             else False) loop;
         ids = indexed loop;
         path = slice ids startIdx (int (length ids)) @ slice ids 0 startIdx;
         path1 = (if direction = ''counter-clockwise''
                  then (case path of [] \<Rightarrow> [] | first # rest \<Rightarrow> first # rev rest)
                  else path)
     in map snd (filter (\<lambda>(k, s). k \<in> set activeSlots) path1))"

definition toRad :: "real \<Rightarrow> real" where
  "toRad deg = deg * (js_pi () / 180)"

text \<open>
  Step 6: what the \<^verbatim>\<open>forEach\<close> body does to a child that has a slot.
  \<^verbatim>\<open>scale.set(v)\<close> with one argument sets both coordinates to \<open>v\<close>.
\<close>

definition perimeter_place ::
  "LayoutOptions \<Rightarrow> CellSize \<Rightarrow> int \<Rightarrow> int \<Rightarrow> PathSlot \<Rightarrow> LayoutComponent \<Rightarrow> LayoutComponent" where
  "perimeter_place options m maxR maxC slot child =
    (let cornerOffset = dflt 0 (opt_cornerOffset options);
         offset = dflt 0 (opt_offset options);
         globalRotation = dflt 0 (opt_globalRotation options);
         perspectiveY = dflt 1 (opt_perspectiveY options);
         depthScale = dflt 0 (opt_depthScale options);
         enableZIndex = dflt False (opt_enableZIndex options);
         gridWidth = of_int maxC * cellWidth m + maxChildWidth m;
         gridHeight = of_int maxR * cellHeight m + maxChildHeight m;
         x0 = of_int (slot_c slot) * cellWidth m + maxChildWidth m / 2;
         y0 = of_int (slot_r slot) * cellHeight m + maxChildHeight m / 2;
         (x, y) = (if cornerOffset \<noteq> 0 \<and> slot_isCorner slot
                   then (if slot_r slot = 0 \<and> slot_c slot = 0 then (x0 - cornerOffset, y0 - cornerOffset)
                         else if slot_r slot = 0 \<and> slot_c slot = maxC then (x0 + cornerOffset, y0 - cornerOffset)
                         else if slot_r slot = maxR \<and> slot_c slot = maxC then (x0 + cornerOffset, y0 + cornerOffset)
                         else if slot_r slot = maxR \<and> slot_c slot = 0 then (x0 - cornerOffset, y0 + cornerOffset)
                         else (x0, y0))
                   else (x0, y0));
         dx0 = x - gridWidth / 2;
         dy0 = y - gridHeight / 2;
         (dx, dy) = (if offset \<noteq> 0
                     then (let dist = js_sqrt (dx0 * dx0 + dy0 * dy0)
                           in if dist > 0 then (dx0 + (dx0 / dist) * offset, dy0 + (dy0 / dist) * offset)
                              else (dx0, dy0))
                     else (dx0, dy0));
         cosRot = js_cos (toRad globalRotation);
         sinRot = js_sin (toRad globalRotation);
         child1 = child\<lparr>position := (dx * cosRot - dy * sinRot, (dx * sinRot + dy * cosRot) * perspectiveY)\<rparr>
     in if enableZIndex \<or> depthScale \<noteq> 0
        then (let depthFactor = snd (position child1) / (if gridHeight / 2 \<noteq> 0 then gridHeight / 2 else 1);
                  child2 = (if enableZIndex \<and> zIndex child1 \<noteq> None
                            then child1\<lparr>zIndex := Some \<lfloor>depthFactor * 1000\<rfloor>\<rparr> else child1)
              in if depthScale \<noteq> 0 \<and> scale child2 \<noteq> None
                 then child2\<lparr>scale := Some (max 0.1 (1 + depthFactor * depthScale),
                                             max 0.1 (1 + depthFactor * depthScale))\<rparr>
                 else child2)
        else child1)"

text \<open>\<^verbatim>\<open>components.forEach((child, i) => { if (i >= finalPath.length) return; ... })\<close>\<close>

fun perimeter_assign ::
  "LayoutOptions \<Rightarrow> CellSize \<Rightarrow> int \<Rightarrow> int \<Rightarrow> PathSlot list \<Rightarrow> LayoutComponent list \<Rightarrow> LayoutComponent list" where
  "perimeter_assign options m maxR maxC [] cs = cs"
| "perimeter_assign options m maxR maxC (slot # slots) [] = []"
| "perimeter_assign options m maxR maxC (slot # slots) (child # cs) =
     perimeter_place options m maxR maxC slot child # perimeter_assign options m maxR maxC slots cs"

text \<open>The budgets and the final path of a call that passes the guard.\<close>

definition perimeter_budgets :: "nat \<Rightarrow> LayoutOptions \<Rightarrow> edge \<Rightarrow> int" where
  "perimeter_budgets numComponents options =
    (let columns = dflt 4 (opt_columns options);
         excludeCorners = dflt False (opt_excludeCorners options);
         priorityDirection = dflt ''columns'' (opt_priorityDirection options);
         effectiveRows = effective_rows numComponents columns (dflt 3 (opt_rows options))
                           (dflt False (opt_autoRows options)) excludeCorners;
         caps = edge_caps columns effectiveRows priorityDirection excludeCorners
     in allocate_budgets numComponents caps priorityDirection (dflt False (opt_equalDistribution options)))"

definition perimeter_caps :: "nat \<Rightarrow> LayoutOptions \<Rightarrow> edge \<Rightarrow> int" where
  "perimeter_caps numComponents options =
    (let columns = dflt 4 (opt_columns options);
         excludeCorners = dflt False (opt_excludeCorners options);
         priorityDirection = dflt ''columns'' (opt_priorityDirection options);
         effectiveRows = effective_rows numComponents columns (dflt 3 (opt_rows options))
                           (dflt False (opt_autoRows options)) excludeCorners
     in edge_caps columns effectiveRows priorityDirection excludeCorners)"

definition perimeter_path :: "nat \<Rightarrow> LayoutOptions \<Rightarrow> PathSlot list" where
  "perimeter_path numComponents options =
    (let columns = dflt 4 (opt_columns options);
         excludeCorners = dflt False (opt_excludeCorners options);
         priorityDirection = dflt ''columns'' (opt_priorityDirection options);
         effectiveRows = effective_rows numComponents columns (dflt 3 (opt_rows options))
                           (dflt False (opt_autoRows options)) excludeCorners;
         maxC = columns - 1;
         maxR = effectiveRows - 1;
         budgets = perimeter_budgets numComponents options;
         loop = build_loop maxR maxC priorityDirection;
         activeSlots = concat (map (active_of_edge (indexed loop) budgets excludeCorners
                                      (dflt ''start'' (opt_overflowAlignment options)))
                                   [Top, Right, Bottom, Left])
     in final_path loop activeSlots maxR maxC (dflt ''top-left'' (opt_startCorner options))
          (dflt ''clockwise'' (opt_direction options)))"

text \<open>\<^verbatim>\<open>_layoutPerimeterGrid\<close>.\<close>

definition layoutPerimeterGrid :: "LayoutComponent list \<Rightarrow> LayoutOptions \<Rightarrow> layout_result" where
  "layoutPerimeterGrid components options =
    (let columns = dflt 4 (opt_columns options);
         excludeCorners = dflt False (opt_excludeCorners options);
         numComponents = length components
     in if numComponents = 0 \<or> columns \<le> 0 then Inr (components, zero_bounds)
        else
         (let effectiveRows = effective_rows numComponents columns (dflt 3 (opt_rows options))
                                (dflt False (opt_autoRows options)) excludeCorners;
              maxC = columns - 1;
              maxR = effectiveRows - 1;
              finalPath = perimeter_path numComponents options;
              m = calculateGridCellSize components options;
              placed = perimeter_assign options m maxR maxC finalPath components
          in Inr (placed, calculateBoundsFromComponents placed options)))"

section \<open>The router of the square grid\<close>

text \<open>The body of the first loop of \<^verbatim>\<open>_layoutSquare\<close>:
  \<^verbatim>\<open>if (child.scale) child.scale.x = 1; if (child.visible !== undefined) child.visible = true;\<close>\<close>

definition reset_component :: "LayoutComponent \<Rightarrow> LayoutComponent" where
  "reset_component child =
    (let child1 = (case scale child of None \<Rightarrow> child | Some sc \<Rightarrow> child\<lparr>scale := Some (1, snd sc)\<rparr>)
     in if visible child1 \<noteq> None then child1\<lparr>visible := Some True\<rparr> else child1)"

text \<open>\<^verbatim>\<open>s.replace(p, r)\<close> with a string pattern: the first occurrence only.\<close>

fun replace_first :: "string \<Rightarrow> string \<Rightarrow> string \<Rightarrow> string" where
  "replace_first p r [] = (if p = [] then r else [])"
| "replace_first p r (ch # s) =
     (if startsWith (ch # s) p then r @ drop (length p) (ch # s) else ch # replace_first p r s)"

text \<open>
  \<^verbatim>\<open>_layoutSquare\<close>. The flows that are not embedded in this theory (gravity-fill,
  symmetric-outward, clustered-fill, braid-flow, interlaced-fill, random-walk,
  perimeter-first, spiral, diagonal-fill, block-fill) are the parameter \<open>other\<close>, called
  with the name of the flow. The returned list holds the components in the order of
  \<^verbatim>\<open>componentsToLayout\<close>, which for a value-weighted flow is the order of the stable
  sort by falling value.
\<close>

definition layoutSquare ::
  "(string \<Rightarrow> LayoutComponent list \<Rightarrow> LayoutOptions \<Rightarrow> layout_result)
     \<Rightarrow> LayoutComponent list \<Rightarrow> LayoutOptions \<Rightarrow> layout_result" where
  "layoutSquare other components options =
    (let useGridSpanning0 = dflt False (opt_useGridSpanning options);
         flowDirection0 = dflt ''default'' (opt_flowDirection options);
         components1 = map reset_component components;
         useGridSpanning = (if flowDirection0 = ''honeycomb'' \<and> useGridSpanning0
                            then False else useGridSpanning0);
         (componentsToLayout, flowDirection) =
           (if startsWith flowDirection0 ''value-weighted''
            then (sort_key (\<lambda>c. - dflt 0 (comp_value c)) components1,
                  (let f = replace_first ''value-weighted-'' [] flowDirection0
                   in if f = [] then ''default'' else f))
            else (components1, flowDirection0))
     in if startsWith flowDirection ''gravity-fill'' then other ''gravity-fill'' componentsToLayout options
        else if flowDirection = ''symmetric-outward'' then other ''symmetric-outward'' componentsToLayout options
        else if flowDirection = ''clustered-fill'' then other ''clustered-fill'' componentsToLayout options
        else if flowDirection = ''boustrophedon'' then layoutSquareBoustrophedon componentsToLayout options
        else if flowDirection = ''braid-flow'' then other ''braid-flow'' componentsToLayout options
        else if flowDirection = ''interlaced-fill'' then other ''interlaced-fill'' componentsToLayout options
        else if flowDirection = ''random-walk'' then other ''random-walk'' componentsToLayout options
        else if flowDirection = ''hilbert-curve'' then layoutSquareHilbertCurve componentsToLayout options
        else if flowDirection = ''perimeter-first'' then other ''perimeter-first'' componentsToLayout options
        else if flowDirection = ''z-order'' then layoutSquareZOrder componentsToLayout options
        else if flowDirection = ''spiral-out'' \<or> flowDirection = ''spiral-in''
        then other ''spiral'' componentsToLayout (options\<lparr>opt_flowDirection := Some flowDirection\<rparr>)
        else if flowDirection = ''diagonal-fill'' then other ''diagonal-fill'' componentsToLayout options
        else if flowDirection = ''block-fill'' then other ''block-fill'' componentsToLayout options
        else if flowDirection = ''corner-converge'' then layoutSquareCornerConverge componentsToLayout options
        else if flowDirection = ''diamond-fill'' then layoutSquareDiamondFill componentsToLayout options
        else if useGridSpanning
        then layoutSquareWithSpanning componentsToLayout (options\<lparr>opt_flowDirection := Some flowDirection\<rparr>)
        else layoutSquareSimple componentsToLayout (options\<lparr>opt_flowDirection := Some flowDirection\<rparr>))"

section \<open>Properties of the cell metrics\<close>

lemma max_over_Max: "max_over f cs m = Max (insert m (f ` set cs))"
proof (induction cs arbitrary: m)
  case Nil
  show ?case by simp
next
  case (Cons c cs)
  have "Max (insert (max m (f c)) (f ` set cs)) = Max (insert m (insert (f c) (f ` set cs)))"
    by (cases "set cs = {}") (simp_all add: max.assoc)
  moreover have "(if m < f c then f c else m) = max m (f c)"
    by (simp add: max_def)
  ultimately show ?case using Cons.IH by simp
qed

text \<open>
  C9 (as amended). The cell is the largest item plus the gap on each axis. The fixed
  values are used only when the sizing mode is \<^verbatim>\<open>fixed\<close> and both fixed dimensions
  are supplied and non-zero; in every other case the largest width and height of the
  items (and 0) are used, so that an empty collection then gives 0 for both and cells
  equal to the gaps.
\<close>

theorem calculateGridCellSize_metrics:
  "cellWidth (calculateGridCellSize cs opts) =
      maxChildWidth (calculateGridCellSize cs opts) + columnGap (calculateGridCellSize cs opts)
   \<and> cellHeight (calculateGridCellSize cs opts) =
      maxChildHeight (calculateGridCellSize cs opts) + rowGap (calculateGridCellSize cs opts)
   \<and> columnGap (calculateGridCellSize cs opts) =
      (case opt_columnGap opts of Some g \<Rightarrow> g | None \<Rightarrow> dflt 0 (opt_spacing opts))
   \<and> rowGap (calculateGridCellSize cs opts) =
      (case opt_rowGap opts of Some g \<Rightarrow> g | None \<Rightarrow> dflt 0 (opt_spacing opts))
   \<and> maxChildWidth (calculateGridCellSize cs opts) =
      (if opt_sizingMode opts = Some ''fixed'' \<and> truthy (opt_fixedWidth opts)
          \<and> truthy (opt_fixedHeight opts)
       then the (opt_fixedWidth opts) else Max (insert 0 (width ` set cs)))
   \<and> maxChildHeight (calculateGridCellSize cs opts) =
      (if opt_sizingMode opts = Some ''fixed'' \<and> truthy (opt_fixedWidth opts)
          \<and> truthy (opt_fixedHeight opts)
       then the (opt_fixedHeight opts) else Max (insert 0 (height ` set cs)))"
  by (simp add: calculateGridCellSize_def Let_def max_over_Max)

theorem calculateGridCellSize_metrics_witness:
  "cellWidth (calculateGridCellSize [item 10 20, item 30 5] (no_options\<lparr>opt_spacing := Some 4\<rparr>)) = 34
   \<and> cellHeight (calculateGridCellSize [item 10 20, item 30 5] (no_options\<lparr>opt_spacing := Some 4\<rparr>)) = 24
   \<and> maxChildWidth (calculateGridCellSize [] no_options) = 0
   \<and> cellWidth (calculateGridCellSize []
        (no_options\<lparr>opt_sizingMode := Some ''fixed'', opt_fixedWidth := Some 50,
                     opt_fixedHeight := Some 40, opt_columnGap := Some 2\<rparr>)) = 52"
  using calculateGridCellSize_metrics [of "[item 10 20, item 30 5]" "no_options\<lparr>opt_spacing := Some 4\<rparr>"]
    calculateGridCellSize_metrics [of "[]" no_options]
    calculateGridCellSize_metrics [of "[]" "no_options\<lparr>opt_sizingMode := Some ''fixed'',
       opt_fixedWidth := Some 50, opt_fixedHeight := Some 40, opt_columnGap := Some 2\<rparr>"]
  by (simp add: no_options_def item_def dflt_def truthy_def)

text \<open>
  C9 as stated fails: in fixed mode with the fixed height supplied as 0, the fixed width
  50 is ignored and the metrics are those of the items.
\<close>

theorem calculateGridCellSize_fixed_counterexample:
  "\<not> (maxChildWidth (calculateGridCellSize [item 10 20]
          (no_options\<lparr>opt_sizingMode := Some ''fixed'', opt_fixedWidth := Some 50,
                       opt_fixedHeight := Some 0\<rparr>)) = 50
      \<and> maxChildHeight (calculateGridCellSize [item 10 20]
          (no_options\<lparr>opt_sizingMode := Some ''fixed'', opt_fixedWidth := Some 50,
                       opt_fixedHeight := Some 0\<rparr>)) = 0)"
  by (simp add: calculateGridCellSize_def no_options_def item_def dflt_def truthy_def)

section \<open>Properties of the simple grid\<close>

lemma js_rem_nonneg: "0 < b \<Longrightarrow> js_rem (int i) b = int i mod b"
  by (cases "i = 0") (simp_all add: js_rem_def)

lemma default_flow_flags:
  "\<not> str_includes ''default'' ''column''" "\<not> str_includes ''default'' ''snake''"
  "\<not> str_includes ''default'' ''bottom''" "\<not> str_includes ''default'' ''right''"
  by code_simp+

lemma simple_cell_default:
  assumes "0 < C"
  shows "simple_cell C R ''default'' False i = (int (i div nat C), int (i mod nat C))"
proof -
  have "int i div C = int (i div nat C)" "int i mod C = int (i mod nat C)"
    using assms by (simp_all add: zdiv_int zmod_int)
  then show ?thesis
    using assms by (simp add: simple_cell_def default_flow_flags js_rem_nonneg)
qed

lemma indexed_nth: "i < length xs \<Longrightarrow> indexed xs ! i = (i, xs ! i)"
  by (simp add: indexed_def)

lemma length_indexed: "length (indexed xs) = length xs"
  by (simp add: indexed_def)

text \<open>
  C2 (as amended). With \<open>C > 0\<close> columns, the default flow and the other options of the
  simple grid at their defaults (no reverse flow, last row aligned at the start, no
  corner offset), item \<open>i\<close> gets the cell \<open>(i div C, i mod C)\<close>, and its center is the
  origin of that cell plus, on each axis, what the alignment in the cell asks for: half
  the item's own size for \<^verbatim>\<open>start\<close> (the default), half the largest size for
  \<^verbatim>\<open>center\<close>, and the largest size minus half the item's own size for \<^verbatim>\<open>end\<close>.
\<close>

theorem layoutSquareSimple_default_flow:
  assumes "0 < C" and "dflt 3 (opt_columns opts) = C"
    and "dflt ''default'' (opt_flowDirection opts) = ''default''"
    and "dflt False (opt_flowReverse opts) = False"
    and "dflt ''start'' (opt_lastRowAlign opts) = ''start''"
    and "dflt 0 (opt_cornerOffset opts) = 0"
    and "i < length cs"
  shows "simple_cell C (js_ceil_div (int (length cs)) C) ''default'' False i
           = (int (i div nat C), int (i mod nat C))
    \<and> (\<exists>placed b. layoutSquareSimple cs opts = Inr (placed, b) \<and> length placed = length cs
          \<and> position (placed ! i) =
             (real (i mod nat C) * cellWidth (calculateGridCellSize cs opts)
                + (if dflt ''start'' (opt_justifyItems opts) = ''end''
                   then maxChildWidth (calculateGridCellSize cs opts) - childWidthOf opts (cs ! i) / 2
                   else if dflt ''start'' (opt_justifyItems opts) = ''center''
                   then maxChildWidth (calculateGridCellSize cs opts) / 2
                   else childWidthOf opts (cs ! i) / 2),
              real (i div nat C) * cellHeight (calculateGridCellSize cs opts)
                + (if dflt ''start'' (opt_alignItems opts) = ''end''
                   then maxChildHeight (calculateGridCellSize cs opts) - childHeightOf opts (cs ! i) / 2
                   else if dflt ''start'' (opt_alignItems opts) = ''center''
                   then maxChildHeight (calculateGridCellSize cs opts) / 2
                   else childHeightOf opts (cs ! i) / 2)))"
proof -
  let ?m = "calculateGridCellSize cs opts"
  let ?R = "js_ceil_div (int (length cs)) C"
  have cell: "simple_cell C ?R ''default'' False i = (int (i div nat C), int (i mod nat C))"
    using assms(1) by (rule simple_cell_default)
  have ne: "cs \<noteq> []" using assms(7) by auto
  have center: "simple_center opts ?m C ?R (length cs) i (cs ! i) =
      (real (i mod nat C) * cellWidth ?m
         + (if dflt ''start'' (opt_justifyItems opts) = ''end''
            then maxChildWidth ?m - childWidthOf opts (cs ! i) / 2
            else if dflt ''start'' (opt_justifyItems opts) = ''center''
            then maxChildWidth ?m / 2
            else childWidthOf opts (cs ! i) / 2),
       real (i div nat C) * cellHeight ?m
         + (if dflt ''start'' (opt_alignItems opts) = ''end''
            then maxChildHeight ?m - childHeightOf opts (cs ! i) / 2
            else if dflt ''start'' (opt_alignItems opts) = ''center''
            then maxChildHeight ?m / 2
            else childHeightOf opts (cs ! i) / 2))"
    using assms(3-6) cell
    by (simp add: simple_center_def Let_def lastRowOffsetX_def)
  have "\<exists>b. layoutSquareSimple cs opts =
          Inr (map (\<lambda>(i, child). child\<lparr>position := simple_center opts ?m C ?R (length cs) i child\<rparr>)
                 (indexed cs), b)"
    using assms(1-3,6) ne
    by (simp add: layoutSquareSimple_def Let_def default_flow_flags)
  then obtain b where res: "layoutSquareSimple cs opts =
          Inr (map (\<lambda>(i, child). child\<lparr>position := simple_center opts ?m C ?R (length cs) i child\<rparr>)
                 (indexed cs), b)" ..
  have "position (map (\<lambda>(i, child). child\<lparr>position := simple_center opts ?m C ?R (length cs) i child\<rparr>)
                 (indexed cs) ! i) = simple_center opts ?m C ?R (length cs) i (cs ! i)"
    using assms(7) by (simp add: length_indexed indexed_nth)
  with res center cell show ?thesis
    by (simp add: length_indexed)
qed

text \<open>The theorem at nine items of size 10 by 10 in 3 columns (gap 2), for the item 5:
  cell \<open>(1, 2)\<close>, center \<open>(29, 17)\<close>.\<close>

theorem layoutSquareSimple_default_flow_witness:
  "simple_cell 3 (js_ceil_div (int (length (replicate 9 (item 10 10)))) 3) ''default'' False 5 = (1, 2)
   \<and> (\<exists>placed b. layoutSquareSimple (replicate 9 (item 10 10))
          (no_options\<lparr>opt_columns := Some 3, opt_spacing := Some 2\<rparr>) = Inr (placed, b)
        \<and> length placed = 9 \<and> position (placed ! 5) = (29, 17))"
proof -
  let ?opts = "no_options\<lparr>opt_columns := Some 3, opt_spacing := Some 2\<rparr>"
  let ?cs = "replicate 9 (item 10 10)"
  have h: "(0::int) < 3" "dflt 3 (opt_columns ?opts) = 3"
    "dflt ''default'' (opt_flowDirection ?opts) = ''default''"
    "dflt False (opt_flowReverse ?opts) = False"
    "dflt ''start'' (opt_lastRowAlign ?opts) = ''start''"
    "dflt 0 (opt_cornerOffset ?opts) = 0" "5 < length ?cs"
    by (simp_all add: no_options_def dflt_def)
  have m: "calculateGridCellSize ?cs ?opts =
       \<lparr>maxChildWidth = 10, maxChildHeight = 10, cellWidth = 12, cellHeight = 12,
        columnGap = 2, rowGap = 2\<rparr>"
    by code_simp
  have c: "childWidthOf ?opts (?cs ! 5) = 10" "childHeightOf ?opts (?cs ! 5) = 10"
    "dflt ''start'' (opt_justifyItems ?opts) = ''start''"
    "dflt ''start'' (opt_alignItems ?opts) = ''start''"
    by (simp_all add: childWidthOf_def childHeightOf_def no_options_def dflt_def item_def)
  show ?thesis
    using layoutSquareSimple_default_flow [OF h] unfolding m c
    by simp
qed

text \<open>
  C2 as stated fails: with two items of widths 10 and 20 in 2 columns, the first item
  is centered at \<open>(5, 5)\<close>, half its own size, not at half the largest size \<open>(10, 10)\<close>.
\<close>

theorem layoutSquareSimple_center_counterexample:
  "layoutSquareSimple [item 10 10, item 20 20] (no_options\<lparr>opt_columns := Some 2\<rparr>) =
     Inr ([(item 10 10)\<lparr>position := (5, 5)\<rparr>, (item 20 20)\<lparr>position := (30, 10)\<rparr>],
          \<lparr>minX = 0, minY = 0, maxX = 40, maxY = 20\<rparr>)
   \<and> (5, 5) \<noteq>
      (0 * cellWidth (calculateGridCellSize [item 10 10, item 20 20] (no_options\<lparr>opt_columns := Some 2\<rparr>))
         + maxChildWidth (calculateGridCellSize [item 10 10, item 20 20] (no_options\<lparr>opt_columns := Some 2\<rparr>)) / 2,
       0 * cellHeight (calculateGridCellSize [item 10 10, item 20 20] (no_options\<lparr>opt_columns := Some 2\<rparr>))
         + maxChildHeight (calculateGridCellSize [item 10 10, item 20 20] (no_options\<lparr>opt_columns := Some 2\<rparr>)) / 2)"
  by code_simp

text \<open>
  C6 at a failing input: one item of size 10 by 10 and \<open>columns = -1\<close>. The simple grid
  (also through the router) moves the item to \<open>(5, 5)\<close> and returns a box that is not the
  zero box; with \<open>columns = 0\<close> its result is not finite.
\<close>

theorem layoutSquareSimple_negative_columns:
  "layoutSquareSimple [item 10 10] (no_options\<lparr>opt_columns := Some (- 1)\<rparr>) =
     Inr ([(item 10 10)\<lparr>position := (5, 5)\<rparr>], \<lparr>minX = 0, minY = 0, maxX = - 10, maxY = - 10\<rparr>)
   \<and> layoutSquare other [item 10 10] (no_options\<lparr>opt_columns := Some (- 1)\<rparr>) =
     Inr ([(item 10 10)\<lparr>position := (5, 5)\<rparr>], \<lparr>minX = 0, minY = 0, maxX = - 10, maxY = - 10\<rparr>)
   \<and> layoutSquareSimple [item 10 10] (no_options\<lparr>opt_columns := Some 0\<rparr>) = Inl NonFinite"
  by code_simp

section \<open>Properties of corner-converge\<close>

text \<open>
  C5 at a failing input: nine items in 3 columns, a 3 by 3 grid. The outer ring gives
  eight cells; the inner ring is the single cell \<open>(1, 1)\<close>, each of its four legs loses
  its only cell to \<^verbatim>\<open>pop()\<close>, so the center is never generated and the ninth item keeps
  its position \<open>(0, 0)\<close>.
\<close>

theorem cornerConverge_misses_center:
  "converge_shells 9 0 2 0 2 [] = [(0, 0), (0, 2), (2, 2), (2, 0), (0, 1), (1, 2), (2, 1), (1, 0)]
   \<and> (1, 1) \<notin> set (converge_shells 9 0 2 0 2 [])
   \<and> map position (fst (projr (layoutSquareCornerConverge (replicate 9 (item 10 10))
         (no_options\<lparr>opt_columns := Some 3\<rparr>)))) =
       [(5, 5), (25, 5), (25, 25), (5, 25), (15, 5), (25, 15), (15, 25), (5, 15), (0, 0)]"
  by code_simp

section \<open>Properties of the spanning placer\<close>

text \<open>
  C1 at a failing input: 3 columns, a unit item and then an item with \<open>colSpan = 3\<close>.
  The unit item takes the cell \<open>(0, 0)\<close>. For the wide item the start column 1 is tried
  in row 0; the cells \<open>(0, 1)\<close> and \<open>(0, 2)\<close> are free and the cell \<open>(0, 3)\<close> is beyond the
  row, which reads as free, so the block is placed at column 1 and covers column 3,
  outside the 3 columns of the grid.
\<close>

theorem spanning_block_leaves_grid:
  "map_option (\<lambda>(grid, maxRowUsed, placedItems).
       (grid, map (\<lambda>it. (p_row it, p_col it, p_rowSpan it, p_colSpan it)) placedItems))
     (place_items no_options 3 False [item 10 10, (item 10 10)\<lparr>colSpan := Some 3\<rparr>] ([], 0, []))
   = Some ([[True, True, True, True]], [(0, 0, 1, 1), (0, 1, 1, 3)])"
  by code_simp

section \<open>Properties of the router\<close>









section \<open>Properties of the perimeter budgets\<close>

lemma js_rem_nonneg_int: "0 \<le> a \<Longrightarrow> 0 < b \<Longrightarrow> js_rem a b = a mod b"
  by (cases "a = 0") (simp_all add: js_rem_def)

lemma edge_cases: "(\<forall>k::edge. P k) = (P Top \<and> P Right \<and> P Bottom \<and> P Left)"
  by (metis edge.exhaust)

lemma share2: "0 \<le> r \<Longrightarrow> 0 \<le> q \<Longrightarrow>
    min q (r div 2 + (if 0 < r mod 2 then 1 else 0)) + min q (r div 2) = min r (2 * q)"
  for r q :: int
  by (cases "0 < r mod 2") (simp_all add: min_def, presburger+)

lemma share2_small: "0 \<le> r \<Longrightarrow> r < 2 * p \<Longrightarrow>
    min p (r div 2 + (if 0 < r mod 2 then 1 else 0)) + min p (r div 2) = r"
  for r p :: int
  using share2 [of r p] by simp

lemma take2: "0 \<le> r \<Longrightarrow> 0 \<le> q \<Longrightarrow> min q r + min q (r - min q r) = min r (2 * q)"
  for r q :: int
  by (simp add: min_def)

text \<open>The budgets under column priority, case by case.\<close>

lemma alloc_cols_values:
  assumes "pd \<noteq> ''rows''" "caps Top = p" "caps Bottom = p" "caps Left = q" "caps Right = q"
    "0 \<le> p" "0 \<le> q"
  shows "allocate_budgets n caps pd eq =
    (if int n \<ge> 2 * p
     then (if eq \<and> 0 < q
           then (\<lambda>k. 0)(Top := p, Bottom := p,
                   Left := min q ((int n - 2 * p) div 2 + (if 0 < (int n - 2 * p) mod 2 then 1 else 0)),
                   Right := min q ((int n - 2 * p) div 2))
           else (\<lambda>k. 0)(Top := p, Bottom := p, Left := min q (int n - 2 * p),
                   Right := min q (int n - 2 * p - min q (int n - 2 * p))))
     else (if eq
           then (\<lambda>k. 0)(Top := min p (int n div 2 + (if 0 < int n mod 2 then 1 else 0)),
                   Bottom := min p (int n div 2), Left := 0, Right := 0)
           else (\<lambda>k. 0)(Top := min p (int n), Bottom := min p (int n - min p (int n)),
                   Left := 0, Right := 0)))"
proof -
  have r: "int n \<ge> 2 * p \<Longrightarrow> 0 \<le> int n - p - p" by simp
  have e: "int n - p - p = int n - 2 * p" by simp
  show ?thesis
    using assms r
    by (auto simp add: allocate_budgets_def fill_to_capacity_def take_in_turn_def share_equally_def
        Let_def js_rem_nonneg_int e fun_eq_iff)
qed


lemma alloc_rows_values:
  assumes "pd = ''rows''" "caps Left = p" "caps Right = p" "caps Top = q" "caps Bottom = q"
    "0 \<le> p" "0 \<le> q"
  shows "allocate_budgets n caps pd eq =
    (if int n \<ge> 2 * p
     then (if eq \<and> 0 < q
           then (\<lambda>k. 0)(Left := p, Right := p,
                   Top := min q ((int n - 2 * p) div 2 + (if 0 < (int n - 2 * p) mod 2 then 1 else 0)),
                   Bottom := min q ((int n - 2 * p) div 2))
           else (\<lambda>k. 0)(Left := p, Right := p, Top := min q (int n - 2 * p),
                   Bottom := min q (int n - 2 * p - min q (int n - 2 * p))))
     else (if eq
           then (\<lambda>k. 0)(Left := min p (int n div 2 + (if 0 < int n mod 2 then 1 else 0)),
                   Right := min p (int n div 2), Top := 0, Bottom := 0)
           else (\<lambda>k. 0)(Left := min p (int n), Right := min p (int n - min p (int n)),
                   Top := 0, Bottom := 0)))"
proof -
  have r: "int n \<ge> 2 * p \<Longrightarrow> 0 \<le> int n - p - p" by simp
  have e: "int n - p - p = int n - 2 * p" by simp
  show ?thesis
    using assms r
    by (auto simp add: allocate_budgets_def fill_to_capacity_def take_in_turn_def share_equally_def
        Let_def js_rem_nonneg_int e fun_eq_iff)
qed

lemma min_shift: "a + b = min (n - 2 * p) (2 * q) \<Longrightarrow> p + p + a + b = min n (2 * p + 2 * q)"
  for a b n p q :: int
  by (simp add: min_def split: if_splits)

lemma min_small: "a + b = n \<Longrightarrow> n < 2 * p \<Longrightarrow> 0 \<le> q \<Longrightarrow> a + b + 0 + 0 = min n (2 * p + 2 * q)"
  for a b n p q :: int
  by (simp add: min_def)

text \<open>Sum and bounds of four budgets of the shape the allocation produces: \<open>a\<close>, \<open>b\<close> on
  the priority edges (capacity \<open>p\<close>), \<open>c\<close>, \<open>d\<close> on the other two (capacity \<open>q\<close>).\<close>

lemma budget_shape:
  fixes n p q :: int
  assumes "0 \<le> n" "0 \<le> p" "0 \<le> q"
    and that: "\<And>a b c d. a + b + c + d = min n (2 * p + 2 * q) \<Longrightarrow> 0 \<le> a \<Longrightarrow> a \<le> p \<Longrightarrow> 0 \<le> b \<Longrightarrow> b \<le> p
        \<Longrightarrow> 0 \<le> c \<Longrightarrow> c \<le> q \<Longrightarrow> 0 \<le> d \<Longrightarrow> d \<le> q \<Longrightarrow> P a b c d"
  shows "(if n \<ge> 2 * p
     then (if eq \<and> 0 < q
           then P p p (min q ((n - 2 * p) div 2 + (if 0 < (n - 2 * p) mod 2 then 1 else 0)))
                  (min q ((n - 2 * p) div 2))
           else P p p (min q (n - 2 * p)) (min q (n - 2 * p - min q (n - 2 * p))))
     else (if eq
           then P (min p (n div 2 + (if 0 < n mod 2 then 1 else 0))) (min p (n div 2)) 0 0
           else P (min p n) (min p (n - min p n)) 0 0))"
proof (cases "n \<ge> 2 * p")
  case True
  then have r: "0 \<le> n - 2 * p" by simp
  show ?thesis
  proof (cases "eq \<and> 0 < q")
    case c: True
    define A where "A = min q ((n - 2 * p) div 2 + (if 0 < (n - 2 * p) mod 2 then 1 else 0))"
    define B where "B = min q ((n - 2 * p) div 2)"
    have "A + B = min (n - 2 * p) (2 * q)"
      unfolding A_def B_def using share2 [OF r assms(3)] .
    then have s: "p + p + A + B = min n (2 * p + 2 * q)" by (rule min_shift)
    have d: "0 \<le> (n - 2 * p) div 2" using r by simp
    have b: "0 \<le> A" "A \<le> q" "0 \<le> B" "B \<le> q"
      unfolding A_def B_def using d assms(3) by simp_all
    have "P p p A B"
      using s assms(2) b by (intro that) simp_all
    with True c show ?thesis by (simp add: A_def B_def)
  next
    case c: False
    define A where "A = min q (n - 2 * p)"
    define B where "B = min q (n - 2 * p - min q (n - 2 * p))"
    have "A + B = min (n - 2 * p) (2 * q)"
      unfolding A_def B_def using take2 [OF r assms(3)] .
    then have s: "p + p + A + B = min n (2 * p + 2 * q)" by (rule min_shift)
    have b: "0 \<le> A" "A \<le> q" "0 \<le> B" "B \<le> q"
      unfolding A_def B_def using r assms(3) by (simp_all add: min_def)
    have "P p p A B"
      using s assms(2) b by (intro that) simp_all
    with True c show ?thesis by (auto simp add: A_def B_def)
  qed
next
  case False
  then have lt: "n < 2 * p" by simp
  show ?thesis
  proof (cases eq)
    case c: True
    define A where "A = min p (n div 2 + (if 0 < n mod 2 then 1 else 0))"
    define B where "B = min p (n div 2)"
    have "A + B = n"
      unfolding A_def B_def using share2_small [OF assms(1) lt] .
    then have s: "A + B + 0 + 0 = min n (2 * p + 2 * q)" using lt assms(3) by (rule min_small)
    have d: "0 \<le> n div 2" using assms(1) by simp
    have b: "0 \<le> A" "A \<le> p" "0 \<le> B" "B \<le> p"
      unfolding A_def B_def using d assms(2) by simp_all
    have "P A B 0 0"
      using s assms(3) b by (intro that) simp_all
    with False c show ?thesis by (simp add: A_def B_def)
  next
    case c: False
    define A where "A = min p n"
    define B where "B = min p (n - min p n)"
    have "A + B = n"
      unfolding A_def B_def using assms lt by (simp add: min_def)
    then have s: "A + B + 0 + 0 = min n (2 * p + 2 * q)" using lt assms(3) by (rule min_small)
    have b: "0 \<le> A" "A \<le> p" "0 \<le> B" "B \<le> p"
      unfolding A_def B_def using assms by (simp_all add: min_def)
    have "P A B 0 0"
      using s assms(3) b by (intro that) simp_all
    with False c show ?thesis by (simp add: A_def B_def)
  qed
qed


lemma alloc_cols_ex:
  assumes "pd \<noteq> ''rows''" "caps Top = p" "caps Bottom = p" "caps Left = q" "caps Right = q"
    "0 \<le> p" "0 \<le> q"
  shows "\<exists>a b c d. allocate_budgets n caps pd eq = (\<lambda>k. 0)(Top := a, Bottom := b, Left := c, Right := d)
           \<and> a + b + c + d = min (int n) (2 * p + 2 * q)
           \<and> 0 \<le> a \<and> a \<le> p \<and> 0 \<le> b \<and> b \<le> p \<and> 0 \<le> c \<and> c \<le> q \<and> 0 \<le> d \<and> d \<le> q"
proof -
  note v = alloc_cols_values [OF assms, of n eq]
  have s: "(if int n \<ge> 2 * p
     then (if eq \<and> 0 < q
           then P p p (min q ((int n - 2 * p) div 2 + (if 0 < (int n - 2 * p) mod 2 then 1 else 0)))
                  (min q ((int n - 2 * p) div 2))
           else P p p (min q (int n - 2 * p)) (min q (int n - 2 * p - min q (int n - 2 * p))))
     else (if eq
           then P (min p (int n div 2 + (if 0 < int n mod 2 then 1 else 0))) (min p (int n div 2)) 0 0
           else P (min p (int n)) (min p (int n - min p (int n))) 0 0))"
    if "P = (\<lambda>a b c d. a + b + c + d = min (int n) (2 * p + 2 * q)
           \<and> 0 \<le> a \<and> a \<le> p \<and> 0 \<le> b \<and> b \<le> p \<and> 0 \<le> c \<and> c \<le> q \<and> 0 \<le> d \<and> d \<le> q)" for P
    by (rule budget_shape) (simp_all add: assms that)
  show ?thesis
  proof (cases "int n \<ge> 2 * p")
    case True
    show ?thesis
    proof (cases "eq \<and> 0 < q")
      case c: True
      from v True c s [OF refl] show ?thesis by (simp only: if_True simp_thms) blast
    next
      case c: False
      from v True c s [OF refl] show ?thesis by (simp only: if_True if_False simp_thms) blast
    qed
  next
    case False
    show ?thesis
    proof (cases eq)
      case c: True
      from v False c s [OF refl] show ?thesis by (simp only: if_True if_False simp_thms) blast
    next
      case c: False
      from v False c s [OF refl] show ?thesis by (simp only: if_True if_False simp_thms) blast
    qed
  qed
qed

lemma alloc_rows_ex:
  assumes "pd = ''rows''" "caps Left = p" "caps Right = p" "caps Top = q" "caps Bottom = q"
    "0 \<le> p" "0 \<le> q"
  shows "\<exists>a b c d. allocate_budgets n caps pd eq = (\<lambda>k. 0)(Left := a, Right := b, Top := c, Bottom := d)
           \<and> a + b + c + d = min (int n) (2 * p + 2 * q)
           \<and> 0 \<le> a \<and> a \<le> p \<and> 0 \<le> b \<and> b \<le> p \<and> 0 \<le> c \<and> c \<le> q \<and> 0 \<le> d \<and> d \<le> q"
proof -
  note v = alloc_rows_values [OF assms, of n eq]
  have s: "(if int n \<ge> 2 * p
     then (if eq \<and> 0 < q
           then P p p (min q ((int n - 2 * p) div 2 + (if 0 < (int n - 2 * p) mod 2 then 1 else 0)))
                  (min q ((int n - 2 * p) div 2))
           else P p p (min q (int n - 2 * p)) (min q (int n - 2 * p - min q (int n - 2 * p))))
     else (if eq
           then P (min p (int n div 2 + (if 0 < int n mod 2 then 1 else 0))) (min p (int n div 2)) 0 0
           else P (min p (int n)) (min p (int n - min p (int n))) 0 0))"
    if "P = (\<lambda>a b c d. a + b + c + d = min (int n) (2 * p + 2 * q)
           \<and> 0 \<le> a \<and> a \<le> p \<and> 0 \<le> b \<and> b \<le> p \<and> 0 \<le> c \<and> c \<le> q \<and> 0 \<le> d \<and> d \<le> q)" for P
    by (rule budget_shape) (simp_all add: assms that)
  show ?thesis
  proof (cases "int n \<ge> 2 * p")
    case True
    show ?thesis
    proof (cases "eq \<and> 0 < q")
      case c: True
      from v True c s [OF refl] show ?thesis by (simp only: if_True simp_thms) blast
    next
      case c: False
      from v True c s [OF refl] show ?thesis by (simp only: if_True if_False simp_thms) blast
    qed
  next
    case False
    show ?thesis
    proof (cases eq)
      case c: True
      from v False c s [OF refl] show ?thesis by (simp only: if_True if_False simp_thms) blast
    next
      case c: False
      from v False c s [OF refl] show ?thesis by (simp only: if_True if_False simp_thms) blast
    qed
  qed
qed

lemma perimeter_budgets_alloc:
  "perimeter_budgets n opts =
     allocate_budgets n (perimeter_caps n opts) (dflt ''columns'' (opt_priorityDirection opts))
       (dflt False (opt_equalDistribution opts))"
  by (simp add: perimeter_budgets_def perimeter_caps_def Let_def)

lemma effective_rows_pos: "1 \<le> effective_rows n columns rows autoRows excludeCorners"
  by (simp add: effective_rows_def Let_def max_def)

lemma perimeter_caps_cols:
  assumes "dflt ''columns'' (opt_priorityDirection opts) \<noteq> ''rows''" "0 < dflt 4 (opt_columns opts)"
  shows "\<exists>p q. 0 \<le> p \<and> 0 \<le> q \<and> perimeter_caps n opts Top = p \<and> perimeter_caps n opts Bottom = p
            \<and> perimeter_caps n opts Left = q \<and> perimeter_caps n opts Right = q"
  using assms by (simp add: perimeter_caps_def edge_caps_def Let_def)

lemma perimeter_caps_rows:
  assumes "dflt ''columns'' (opt_priorityDirection opts) = ''rows''"
  shows "\<exists>p q. 0 \<le> p \<and> 0 \<le> q \<and> perimeter_caps n opts Left = p \<and> perimeter_caps n opts Right = p
            \<and> perimeter_caps n opts Top = q \<and> perimeter_caps n opts Bottom = q"
proof -
  have "0 \<le> effective_rows n columns rows autoRows excludeCorners" for columns rows autoRows excludeCorners
    using effective_rows_pos [of n columns rows autoRows excludeCorners] by simp
  then show ?thesis
    using assms by (simp add: perimeter_caps_def edge_caps_def Let_def)
qed

lemma perimeter_budgets_props:
  assumes "0 < dflt 4 (opt_columns opts)"
  shows "perimeter_budgets n opts Top + perimeter_budgets n opts Right
           + perimeter_budgets n opts Bottom + perimeter_budgets n opts Left
         = min (int n) (perimeter_caps n opts Top + perimeter_caps n opts Right
                         + perimeter_caps n opts Bottom + perimeter_caps n opts Left)
       \<and> (\<forall>k. 0 \<le> perimeter_budgets n opts k \<and> perimeter_budgets n opts k \<le> perimeter_caps n opts k)"
proof (cases "dflt ''columns'' (opt_priorityDirection opts) = ''rows''")
  case False
  from perimeter_caps_cols [OF False assms, of n] obtain p q where
    pq: "0 \<le> p" "0 \<le> q" "perimeter_caps n opts Top = p" "perimeter_caps n opts Bottom = p"
      "perimeter_caps n opts Left = q" "perimeter_caps n opts Right = q"
    by blast
  from alloc_cols_ex [OF False pq(3-6) pq(1,2), of n "dflt False (opt_equalDistribution opts)"]
  obtain a b c d where
    "perimeter_budgets n opts = (\<lambda>k. 0)(Top := a, Bottom := b, Left := c, Right := d)"
    "a + b + c + d = min (int n) (2 * p + 2 * q)"
    "0 \<le> a" "a \<le> p" "0 \<le> b" "b \<le> p" "0 \<le> c" "c \<le> q" "0 \<le> d" "d \<le> q"
    unfolding perimeter_budgets_alloc by blast
  then show ?thesis
    unfolding edge_cases by (simp add: pq)
next
  case True
  from perimeter_caps_rows [OF True, of n] obtain p q where
    pq: "0 \<le> p" "0 \<le> q" "perimeter_caps n opts Left = p" "perimeter_caps n opts Right = p"
      "perimeter_caps n opts Top = q" "perimeter_caps n opts Bottom = q"
    by blast
  from alloc_rows_ex [OF True pq(3-6) pq(1,2), of n "dflt False (opt_equalDistribution opts)"]
  obtain a b c d where
    "perimeter_budgets n opts = (\<lambda>k. 0)(Left := a, Right := b, Top := c, Bottom := d)"
    "a + b + c + d = min (int n) (2 * p + 2 * q)"
    "0 \<le> a" "a \<le> p" "0 \<le> b" "b \<le> p" "0 \<le> c" "c \<le> q" "0 \<le> d" "d \<le> q"
    unfolding perimeter_budgets_alloc by blast
  then show ?thesis
    unfolding edge_cases by (simp add: pq)
qed

text \<open>
  C3. For a call that passes the guard (\<open>columns > 0\<close>; the row count is given or
  derived by \<^verbatim>\<open>autoRows\<close>), for every item count and every setting of
  \<^verbatim>\<open>priorityDirection\<close>, \<^verbatim>\<open>excludeCorners\<close> and \<^verbatim>\<open>equalDistribution\<close>: the four
  budgets sum to the smaller of the item count and the total capacity, and each budget is
  a non-negative integer that is at most the capacity of its edge.
\<close>

theorem perimeter_budgets_sum:
  assumes "0 < dflt 4 (opt_columns opts)"
  shows "perimeter_budgets n opts Top + perimeter_budgets n opts Right
           + perimeter_budgets n opts Bottom + perimeter_budgets n opts Left
         = min (int n) (perimeter_caps n opts Top + perimeter_caps n opts Right
                         + perimeter_caps n opts Bottom + perimeter_caps n opts Left)
       \<and> (\<forall>k. 0 \<le> perimeter_budgets n opts k \<and> perimeter_budgets n opts k \<le> perimeter_caps n opts k)"
  using assms by (rule perimeter_budgets_props)

text \<open>
  The theorem at 10 items on a 4 by 3 grid without corners: capacities and budgets are
  2, 1, 2, 1.
\<close>

theorem perimeter_budgets_sum_witness:
  "map (perimeter_budgets 10 (no_options\<lparr>opt_columns := Some 4, opt_rows := Some 3, opt_excludeCorners := Some True\<rparr>))
       [Top, Right, Bottom, Left] = [2, 1, 2, 1]
   \<and> map (perimeter_caps 10 (no_options\<lparr>opt_columns := Some 4, opt_rows := Some 3, opt_excludeCorners := Some True\<rparr>))
       [Top, Right, Bottom, Left] = [2, 1, 2, 1]
   \<and> (\<forall>k. 0 \<le> perimeter_budgets 10
              (no_options\<lparr>opt_columns := Some 4, opt_rows := Some 3, opt_excludeCorners := Some True\<rparr>) k
          \<and> perimeter_budgets 10
              (no_options\<lparr>opt_columns := Some 4, opt_rows := Some 3, opt_excludeCorners := Some True\<rparr>) k
            \<le> perimeter_caps 10
              (no_options\<lparr>opt_columns := Some 4, opt_rows := Some 3, opt_excludeCorners := Some True\<rparr>) k)"
proof -
  let ?opts = "no_options\<lparr>opt_columns := Some 4, opt_rows := Some 3, opt_excludeCorners := Some True\<rparr>"
  have h: "0 < dflt 4 (opt_columns ?opts)"
    by (simp add: no_options_def dflt_def)
  have e: "map (perimeter_budgets 10 ?opts) [Top, Right, Bottom, Left] = [2, 1, 2, 1]"
    "map (perimeter_caps 10 ?opts) [Top, Right, Bottom, Left] = [2, 1, 2, 1]"
    by code_simp+
  from perimeter_budgets_sum [OF h, of 10] e show ?thesis
    by blast
qed

section \<open>Termination and spans of the spanning placer\<close>


lemma length_ensure_rows: "length (ensure_rows grid columns b) = max (length grid) b"
  by (simp add: ensure_rows_def)









section \<open>Items beyond the capacity of a strategy\<close>

lemma length_place_or_hide: "length (place_or_hide m ps cs) = length cs"
  by (induction m ps cs rule: place_or_hide.induct) simp_all

lemma place_or_hide_nth:
  "i < length cs \<Longrightarrow> place_or_hide m ps cs ! i =
     (if i < length ps then place_at m (ps ! i) (cs ! i)
      else if visible (cs ! i) \<noteq> None then (cs ! i)\<lparr>visible := Some False\<rparr> else cs ! i)"
proof (induction m ps cs arbitrary: i rule: place_or_hide.induct)
  case (1 m ps)
  then show ?case by simp
next
  case (2 m child cs)
  then show ?case by (cases i) simp_all
next
  case (3 m p ps child cs)
  then show ?case by (cases i) simp_all
qed

lemma length_perimeter_assign: "length (perimeter_assign options m maxR maxC slots cs) = length cs"
  by (induction options m maxR maxC slots cs rule: perimeter_assign.induct) simp_all

lemma perimeter_assign_nth:
  "i < length cs \<Longrightarrow> length slots \<le> i \<Longrightarrow> perimeter_assign options m maxR maxC slots cs ! i = cs ! i"
proof (induction options m maxR maxC slots cs arbitrary: i rule: perimeter_assign.induct)
  case (1 options m maxR maxC cs)
  then show ?case by simp
next
  case (2 options m maxR maxC slot slots)
  then show ?case by simp
next
  case (3 options m maxR maxC slot slots child cs)
  then show ?case by (cases i) simp_all
qed

lemma length_active_of_edge:
  "length (active_of_edge loop budgets ex oa name) \<le> nat (budgets name)"
proof -
  have "length (filter P picks) \<le> nat b" if "length picks = nat b" for P and picks :: "int list" and b
    using length_filter_le [of P picks] that by simp
  then show ?thesis
    by (simp add: active_of_edge_def Let_def)
qed

lemma length_filter_rotate:
  "length (filter P (drop k xs @ take k xs)) = length (filter P xs)"
proof -
  have "length (filter P (take k xs @ drop k xs)) = length (filter P xs)" by simp
  then show ?thesis by (simp del: append_take_drop_id)
qed

lemma length_filter_keep_first:
  "length (filter P (case xs of [] \<Rightarrow> [] | first # rest \<Rightarrow> first # rev rest)) = length (filter P xs)"
  by (cases xs) (simp_all flip: rev_filter)

lemma slice_rotate:
  "slice xs a (int (length xs)) @ slice xs 0 a = drop (slice_index xs a) xs @ take (slice_index xs a) xs"
  by (simp add: slice_def slice_index_def)

lemma length_filter_indexed:
  "length (filter (\<lambda>(k, s). k \<in> set as) (indexed xs)) \<le> length as"
proof -
  have "map fst (filter (\<lambda>(k, s). k \<in> set as) (indexed xs)) = filter (\<lambda>k. k \<in> set as) (map fst (indexed xs))"
    by (simp add: filter_map o_def case_prod_unfold)
  also have "map fst (indexed xs) = [0..<length xs]"
    by (simp add: indexed_def)
  finally have "length (filter (\<lambda>(k, s). k \<in> set as) (indexed xs))
      = length (filter (\<lambda>k. k \<in> set as) [0..<length xs])"
    by (metis length_map)
  also have "\<dots> = card (set (filter (\<lambda>k. k \<in> set as) [0..<length xs]))"
    using distinct_card [of "filter (\<lambda>k. k \<in> set as) [0..<length xs]"] by simp
  also have "\<dots> \<le> card (set as)"
    by (rule card_mono) auto
  also have "\<dots> \<le> length as" by (rule card_length)
  finally show ?thesis .
qed

lemma length_final_path:
  "length (final_path loop activeSlots maxR maxC startCorner direction) \<le> length activeSlots"
proof -
  have "length (filter (\<lambda>(k, s). k \<in> set activeSlots)
          (if b
           then (case slice (indexed loop) a (int (length (indexed loop))) @ slice (indexed loop) 0 a of
                   [] \<Rightarrow> [] | first # rest \<Rightarrow> first # rev rest)
           else slice (indexed loop) a (int (length (indexed loop))) @ slice (indexed loop) 0 a))
        = length (filter (\<lambda>(k, s). k \<in> set activeSlots) (indexed loop))" for a b
    by (cases b)
       (simp_all only: if_True if_False length_filter_keep_first slice_rotate length_filter_rotate)
  then show ?thesis
    by (simp add: final_path_def Let_def length_filter_indexed)
qed

lemma sum_list_edges: "length (concat (map f [Top, Right, Bottom, Left]))
    = length (f Top) + length (f Right) + length (f Bottom) + length (f Left)"
  by simp

lemma length_perimeter_path:
  assumes "\<And>k. 0 \<le> perimeter_budgets n opts k"
  shows "int (length (perimeter_path n opts))
     \<le> perimeter_budgets n opts Top + perimeter_budgets n opts Right
        + perimeter_budgets n opts Bottom + perimeter_budgets n opts Left"
proof -
  let ?b = "perimeter_budgets n opts"
  have "length (perimeter_path n opts) \<le> nat (?b Top) + nat (?b Right) + nat (?b Bottom) + nat (?b Left)"
    unfolding perimeter_path_def Let_def
    by (rule order_trans [OF length_final_path], unfold sum_list_edges)
       (intro add_mono length_active_of_edge)
  then show ?thesis
    using assms [of Top] assms [of Right] assms [of Bottom] assms [of Left] by linarith
qed


text \<open>
  C7 (as amended). Diamond-fill: every item whose index is at or beyond the number of
  valid cells keeps its position, and its visibility flag, when it has one, is set to
  false. Perimeter grid: every item whose index is at or beyond the length of the final
  path, in particular at or beyond the sum of the four budgets, is left exactly as it
  was, its visibility flag included.
\<close>

theorem overflow_items_not_placed:
  "(dflt 5 (opt_columns opts) \<noteq> 0 \<longrightarrow>
      (\<exists>placed b. layoutSquareDiamondFill cs opts = Inr (placed, b) \<and> length placed = length cs
         \<and> (\<forall>i<length cs.
               length (validPositions (dflt 5 (opt_columns opts))
                         (js_ceil_div (int (length cs)) (dflt 5 (opt_columns opts)))) \<le> i \<longrightarrow>
               position (placed ! i) = position (cs ! i)
               \<and> visible (placed ! i) = (if visible (cs ! i) = None then None else Some False))))
   \<and> (\<exists>placed b. layoutPerimeterGrid cs opts = Inr (placed, b) \<and> length placed = length cs
         \<and> (\<forall>i<length cs.
               (length (perimeter_path (length cs) opts) \<le> i
                \<or> perimeter_budgets (length cs) opts Top + perimeter_budgets (length cs) opts Right
                   + perimeter_budgets (length cs) opts Bottom + perimeter_budgets (length cs) opts Left
                   \<le> int i) \<longrightarrow>
               placed ! i = cs ! i))"
proof (intro conjI impI)
  assume c: "dflt 5 (opt_columns opts) \<noteq> 0"
  let ?ps = "validPositions (dflt 5 (opt_columns opts)) (js_ceil_div (int (length cs)) (dflt 5 (opt_columns opts)))"
  let ?m = "calculateGridCellSize cs opts"
  have "\<exists>b. layoutSquareDiamondFill cs opts = Inr (place_or_hide ?m ?ps cs, b)"
    using c by (cases cs) (simp_all add: layoutSquareDiamondFill_def Let_def)
  moreover have "position (place_or_hide ?m ?ps cs ! i) = position (cs ! i)
      \<and> visible (place_or_hide ?m ?ps cs ! i) = (if visible (cs ! i) = None then None else Some False)"
    if "i < length cs" "length ?ps \<le> i" for i
    using that by (simp add: place_or_hide_nth)
  ultimately show "\<exists>placed b. layoutSquareDiamondFill cs opts = Inr (placed, b) \<and> length placed = length cs
         \<and> (\<forall>i<length cs. length ?ps \<le> i \<longrightarrow>
               position (placed ! i) = position (cs ! i)
               \<and> visible (placed ! i) = (if visible (cs ! i) = None then None else Some False))"
    using length_place_or_hide by blast
next
  let ?n = "length cs"
  let ?sum = "perimeter_budgets ?n opts Top + perimeter_budgets ?n opts Right
                   + perimeter_budgets ?n opts Bottom + perimeter_budgets ?n opts Left"
  show "\<exists>placed b. layoutPerimeterGrid cs opts = Inr (placed, b) \<and> length placed = length cs
         \<and> (\<forall>i<length cs. (length (perimeter_path ?n opts) \<le> i \<or> ?sum \<le> int i) \<longrightarrow> placed ! i = cs ! i)"
  proof (cases "?n = 0 \<or> dflt 4 (opt_columns opts) \<le> 0")
    case True
    then have "layoutPerimeterGrid cs opts = Inr (cs, zero_bounds)"
      by (simp add: layoutPerimeterGrid_def Let_def)
    then show ?thesis by blast
  next
    case False
    then have col: "0 < dflt 4 (opt_columns opts)" by simp
    have "\<And>k. 0 \<le> perimeter_budgets ?n opts k"
      using perimeter_budgets_props [OF col, of ?n] by blast
    then have le: "int (length (perimeter_path ?n opts)) \<le> ?sum"
      by (rule length_perimeter_path)
    obtain placed b where r: "layoutPerimeterGrid cs opts = Inr (placed, b)"
      and p: "placed = perimeter_assign opts (calculateGridCellSize cs opts)
                (effective_rows ?n (dflt 4 (opt_columns opts)) (dflt 3 (opt_rows opts))
                   (dflt False (opt_autoRows opts)) (dflt False (opt_excludeCorners opts)) - 1)
                (dflt 4 (opt_columns opts) - 1) (perimeter_path ?n opts) cs"
      using False by (simp add: layoutPerimeterGrid_def Let_def)
    have "placed ! i = cs ! i"
      if "i < length cs" "length (perimeter_path ?n opts) \<le> i \<or> ?sum \<le> int i" for i
    proof -
      have "length (perimeter_path ?n opts) \<le> i" using that(2) le by linarith
      with that(1) show ?thesis unfolding p by (rule perimeter_assign_nth)
    qed
    moreover have "length placed = length cs"
      unfolding p by (rule length_perimeter_assign)
    ultimately show ?thesis using r by blast
  qed
qed

text \<open>
  The theorem at six visible items in a diamond of 3 columns (two valid cells), and at
  three visible items on a perimeter of one cell (a final path of two slots).
\<close>

theorem overflow_items_not_placed_witness:
  "(\<exists>placed b. layoutSquareDiamondFill (replicate 6 ((item 10 10)\<lparr>visible := Some True\<rparr>))
        (no_options\<lparr>opt_columns := Some 3\<rparr>) = Inr (placed, b)
      \<and> map visible placed = [Some True, Some True, Some False, Some False, Some False, Some False]
      \<and> position (placed ! 2) = (0, 0))
   \<and> (\<exists>placed b. layoutPerimeterGrid (replicate 3 ((item 10 10)\<lparr>visible := Some True\<rparr>))
        (no_options\<lparr>opt_columns := Some 1, opt_rows := Some 1\<rparr>) = Inr (placed, b)
      \<and> placed ! 2 = (item 10 10)\<lparr>visible := Some True\<rparr>)"
proof -
  let ?d = "replicate 6 ((item 10 10)\<lparr>visible := Some True\<rparr>)"
  let ?od = "no_options\<lparr>opt_columns := Some 3\<rparr>"
  let ?c = "replicate 3 ((item 10 10)\<lparr>visible := Some True\<rparr>)"
  let ?oc = "no_options\<lparr>opt_columns := Some 1, opt_rows := Some 1\<rparr>"
  have h: "dflt 5 (opt_columns ?od) \<noteq> 0" by (simp add: no_options_def dflt_def)
  have e: "length (perimeter_path (length ?c) ?oc) \<le> 2" by code_simp
  have v: "map visible (fst (projr (layoutSquareDiamondFill ?d ?od)))
             = [Some True, Some True, Some False, Some False, Some False, Some False]"
    "position (fst (projr (layoutSquareDiamondFill ?d ?od)) ! 2) = (0, 0)"
    by code_simp+
  from overflow_items_not_placed [of ?od ?d] h obtain placed b where
    "layoutSquareDiamondFill ?d ?od = Inr (placed, b)" by blast
  with v have 1: "\<exists>placed b. layoutSquareDiamondFill ?d ?od = Inr (placed, b)
      \<and> map visible placed = [Some True, Some True, Some False, Some False, Some False, Some False]
      \<and> position (placed ! 2) = (0, 0)" by simp
  from overflow_items_not_placed [of ?oc ?c] obtain placed b where
    p: "layoutPerimeterGrid ?c ?oc = Inr (placed, b)"
    "\<forall>i<length ?c. (length (perimeter_path (length ?c) ?oc) \<le> i
                \<or> perimeter_budgets (length ?c) ?oc Top + perimeter_budgets (length ?c) ?oc Right
                   + perimeter_budgets (length ?c) ?oc Bottom + perimeter_budgets (length ?c) ?oc Left
                   \<le> int i) \<longrightarrow> placed ! i = ?c ! i"
    by blast
  have "placed ! 2 = ?c ! 2" using p(2) e by simp
  then have "placed ! 2 = (item 10 10)\<lparr>visible := Some True\<rparr>" by (simp add: numeral_3_eq_3)
  with p(1) 1 show ?thesis by blast
qed

text \<open>
  C7 as stated fails for the perimeter grid: with a total budget of 2, the third item
  (index 2) is beyond the capacity and its visibility flag is not set to false.
\<close>

theorem perimeter_overflow_counterexample:
  "perimeter_budgets 3 (no_options\<lparr>opt_columns := Some 1, opt_rows := Some 1\<rparr>) Top
     + perimeter_budgets 3 (no_options\<lparr>opt_columns := Some 1, opt_rows := Some 1\<rparr>) Right
     + perimeter_budgets 3 (no_options\<lparr>opt_columns := Some 1, opt_rows := Some 1\<rparr>) Bottom
     + perimeter_budgets 3 (no_options\<lparr>opt_columns := Some 1, opt_rows := Some 1\<rparr>) Left = 2
   \<and> visible (fst (projr (layoutPerimeterGrid (replicate 3 ((item 10 10)\<lparr>visible := Some True\<rparr>))
         (no_options\<lparr>opt_columns := Some 1, opt_rows := Some 1\<rparr>))) ! 2) \<noteq> Some False"
  by code_simp

end
